theory Spec2Isabelle
  imports Main "HOL-Library.Char_ord" "HOL-Library.List_Lexorder"
begin

section \<open>Route guarding (src/middleware.ts)\<close>























section \<open>The authenticated HTTP client (src/app/lib/api.ts)\<close>

subsection \<open>Constants\<close>

definition REQUEST_TIMEOUT :: nat where
  "REQUEST_TIMEOUT = 30000"

definition MAX_RETRIES :: nat where
  "MAX_RETRIES = 2"

subsection \<open>Requests, responses and errors\<close>

text \<open>
  \<open>HeadersInit\<close> has three shapes in the source: a \<open>Headers\<close> object (given by the
  entries appended to it, in that order), an array of pairs and a plain record. In the
  last two a value may be \<open>undefined\<close> (\<open>None\<close>).
\<close>

datatype HeadersInit =
    Headers "(string \<times> string) list"
  | HeadersArray "(string \<times> string option) list"
  | HeadersRecord "(string \<times> string option) list"

datatype BodyInit = FormData "(string \<times> string) list" | BodyText string

record RequestInit =
  http_method :: "string option"
  body :: "BodyInit option"
  headers :: "HeadersInit option"

text \<open>
  What one call of \<open>fetch\<close> is given: the URL and the merged init object.
  \<open>req_headers\<close> is the record passed as \<open>headers\<close>, as \<open>fetchWithAuth\<close> built it.
\<close>

record request =
  url :: string
  req_method :: "string option"
  req_body :: "BodyInit option"
  req_headers :: "string \<rightharpoonup> string"
  req_mode :: string
  req_credentials :: string
  signal :: nat

text \<open>
  A parsed JSON body, with the two fields the client reads. \<open>refreshToken\<close> is declared
  to return \<open>Promise<string>\<close>, so \<open>access_token\<close> is a string.
\<close>

record json =
  message :: "string option"
  access_token :: string

text \<open>
  A response: its status, what \<open>response.json()\<close> yields (\<open>None\<close> when the body is
  not JSON and the parse rejects) and what \<open>response.blob()\<close> yields. The body is
  taken to arrive with the response: reading it takes no time.
\<close>

record response =
  status :: nat
  json_body :: "json option"
  blob_body :: string

definition ok :: "response \<Rightarrow> bool" where
  "ok r = (200 \<le> status r \<and> status r \<le> 299)"

text \<open>
  Thrown values: \<open>Error m\<close> is \<open>new Error(m)\<close> (its name is \<open>Error\<close>); \<open>AbortError\<close>
  is what \<open>fetch\<close> rejects with when its signal fires; \<open>TypeError\<close> is the rejection of
  \<open>fetch\<close> on a network failure; \<open>SyntaxError\<close> is the rejection of \<open>response.json()\<close>.
\<close>

datatype error = Error string | AbortError | TypeError | SyntaxError

datatype responseType = json_type | blob_type

datatype payload = JsonPayload json | BlobPayload string

subsection \<open>The state the client runs in\<close>

text \<open>
  Time is a clock in milliseconds, advanced by network latencies and by the backoff
  waits; the code between two suspension points takes no time. \<open>trace\<close> records every
  call of \<open>fetch\<close> and every wait, in order; \<open>calls\<close> counts the requests that went to
  the network. \<open>refreshInProgress\<close> is the module variable of that name: the pending
  refresh promise, named by a number.
\<close>

datatype event = Fetch request | Sleep nat

record state =
  cookies :: "string \<rightharpoonup> string"
  refreshInProgress :: "nat option"
  promises :: nat
  now :: nat
  controllers :: nat
  calls :: nat
  trace :: "event list"
  location_href :: string

text \<open>
  The environment: the base URL of \<open>config\<close>, the network (what the \<open>i\<close>-th request
  sent is answered with, and after how long), and what a caller that joins an already
  pending refresh observes when that refresh settles.
\<close>

datatype net_result = NetworkFailure | Responded response

record reply =
  latency :: nat
  result :: net_result

record settlement =
  outcome :: "error + string"
  cookies_after :: "string \<rightharpoonup> string"
  elapsed :: nat

record env =
  apiBaseUrl :: string
  net :: "nat \<Rightarrow> request \<Rightarrow> reply"
  pending :: "state \<Rightarrow> settlement"

subsection \<open>Cookies, timers and fetch\<close>

definition Cookies_remove :: "string \<Rightarrow> state \<Rightarrow> state" where
  "Cookies_remove name s = s\<lparr>cookies := (cookies s)(name := None)\<rparr>"

definition Cookies_set :: "string \<Rightarrow> string \<Rightarrow> state \<Rightarrow> state" where
  "Cookies_set name v s = s\<lparr>cookies := (cookies s)(name \<mapsto> v)\<rparr>"

text \<open>\<open>v || null\<close> and \<open>if (v)\<close> on a string that may be missing: the empty string is falsy.\<close>

definition truthy :: "string option \<Rightarrow> string option" where
  "truthy v = (case v of None \<Rightarrow> None | Some t \<Rightarrow> if t = [] then None else Some t)"

text \<open>
  An \<open>AbortController\<close> with its timer: the number that names its signal and the time
  at which the timer fires. \<open>cleanup\<close> only cancels the timer, and nothing that runs
  after it looks at the signal again, so it has no counterpart here.
\<close>

record controller =
  cid :: nat
  deadline :: nat

definition createAbortController :: "nat \<Rightarrow> state \<Rightarrow> controller \<times> state" where
  "createAbortController timeoutMs s =
     (\<lparr>cid = controllers s, deadline = now s + timeoutMs\<rparr>,
      s\<lparr>controllers := controllers s + 1\<rparr>)"

text \<open>
  \<open>fetch\<close> in two halves. Sending is synchronous: with a signal that has already fired
  nothing is sent. Settling is what the awaiting code observes: the timer of the signal
  wins when it fires no later than the reply arrives.
\<close>

definition fetch_send :: "request \<Rightarrow> controller \<Rightarrow> state \<Rightarrow> nat option \<times> state" where
  "fetch_send req c s =
     (let s1 = s\<lparr>trace := trace s @ [Fetch req]\<rparr>
      in if deadline c \<le> now s then (None, s1)
         else (Some (calls s), s1\<lparr>calls := calls s + 1\<rparr>))"

definition fetch_settle :: "reply \<Rightarrow> controller \<Rightarrow> state \<Rightarrow> (error + response) \<times> state" where
  "fetch_settle r c s =
     (if deadline c \<le> now s + latency r then (Inl AbortError, s\<lparr>now := deadline c\<rparr>)
      else (case result r of
              NetworkFailure \<Rightarrow> (Inl TypeError, s\<lparr>now := now s + latency r\<rparr>)
            | Responded resp \<Rightarrow> (Inr resp, s\<lparr>now := now s + latency r\<rparr>)))"

definition fetch :: "env \<Rightarrow> request \<Rightarrow> controller \<Rightarrow> state \<Rightarrow> (error + response) \<times> state" where
  "fetch e req c s =
     (case fetch_send req c s of
        (None, s1) \<Rightarrow> (Inl AbortError, s1)
      | (Some i, s1) \<Rightarrow> fetch_settle (net e i req) c s1)"

definition sleep :: "nat \<Rightarrow> state \<Rightarrow> state" where
  "sleep ms s = s\<lparr>now := now s + ms, trace := trace s @ [Sleep ms]\<rparr>"

subsection \<open>Numbers in template strings\<close>

definition digit_char :: "nat \<Rightarrow> char" where
  "digit_char d =
     (if d = 0 then CHR ''0'' else if d = 1 then CHR ''1'' else if d = 2 then CHR ''2''
      else if d = 3 then CHR ''3'' else if d = 4 then CHR ''4'' else if d = 5 then CHR ''5''
      else if d = 6 then CHR ''6'' else if d = 7 then CHR ''7'' else if d = 8 then CHR ''8''
      else CHR ''9'')"

function string_of_nat :: "nat \<Rightarrow> string" where
  "string_of_nat n =
     (if n < 10 then [digit_char n]
      else string_of_nat (n div 10) @ [digit_char (n mod 10)])"
  by pat_completeness auto
termination
  by (relation "measure id") auto

declare string_of_nat.simps [simp del]

subsection \<open>buildHeaders\<close>

text \<open>
  \<open>forEach\<close> on a \<open>Headers\<close> object does not hand out the entries as they were
  appended: names come in lower case and sorted, each name once with its values joined
  by a comma and a space, except \<open>set-cookie\<close>, whose values come one by one.
\<close>

definition lower_char :: "char \<Rightarrow> char" where
  "lower_char c =
     (case map_of (zip ''ABCDEFGHIJKLMNOPQRSTUVWXYZ'' ''abcdefghijklmnopqrstuvwxyz'') c of
        None \<Rightarrow> c
      | Some l \<Rightarrow> l)"

definition lowercase :: "string \<Rightarrow> string" where
  "lowercase name = map lower_char name"

fun join_values :: "string list \<Rightarrow> string" where
  "join_values [] = []"
| "join_values [v] = v"
| "join_values (v # w # ws) = v @ '', '' @ join_values (w # ws)"

definition Headers_forEach :: "(string \<times> string) list \<Rightarrow> (string \<times> string) list" where
  "Headers_forEach kvs =
     concat
       (map (\<lambda>name.
               let vs = map snd (filter (\<lambda>(k, v). lowercase k = name) kvs)
               in if name = ''set-cookie'' then map (Pair name) vs
                  else [(name, join_values vs)])
          (sort (remdups (map (\<lambda>(k, v). lowercase k) kvs))))"

text \<open>
  The result of \<open>buildHeaders\<close> is a record: its names are told apart exactly, letter
  case included, so an entry \<open>content-type\<close> stands beside \<open>Content-Type\<close> and does
  not replace it.
\<close>

definition merge_defined :: "(string \<rightharpoonup> string) \<Rightarrow> (string \<times> string option) list \<Rightarrow> (string \<rightharpoonup> string)" where
  "merge_defined h kvs =
     foldl (\<lambda>acc (key, v). case v of None \<Rightarrow> acc | Some x \<Rightarrow> acc(key \<mapsto> x)) h kvs"

definition buildHeaders :: "string option \<Rightarrow> HeadersInit option \<Rightarrow> (string \<rightharpoonup> string)" where
  "buildHeaders token existingHeaders =
     (let headers0 = [''Content-Type'' \<mapsto> ''application/json''];
          headers1 =
            (case existingHeaders of
               None \<Rightarrow> headers0
             | Some (Headers kvs) \<Rightarrow>
                 foldl (\<lambda>acc (key, v). acc(key \<mapsto> v)) headers0 (Headers_forEach kvs)
             | Some (HeadersArray kvs) \<Rightarrow> merge_defined headers0 kvs
             | Some (HeadersRecord kvs) \<Rightarrow> merge_defined headers0 kvs)
      in case truthy token of
           None \<Rightarrow> headers1
         | Some t \<Rightarrow> headers1(''Authorization'' \<mapsto> ''Bearer '' @ t))"

subsection \<open>refreshToken\<close>

text \<open>
  The function runs in two pieces, split at its one suspension point \<open>await fetch\<close>.
  \<open>refreshToken_start\<close> is everything up to there: it either returns the pending
  promise (\<open>Joined\<close>), throws (\<open>Thrown\<close>), or creates the timer, sends the request and
  stores the new promise in \<open>refreshInProgress\<close> (\<open>Issued\<close>).
\<close>

datatype started = Joined nat | Thrown error | Issued nat request controller "nat option"

definition clear_session :: "state \<Rightarrow> state" where
  "clear_session s =
     Cookies_remove ''loginTime''
       (Cookies_remove ''userData''
          (Cookies_remove ''refreshToken''
             (Cookies_remove ''accessToken'' s)))"

definition refresh_request :: "env \<Rightarrow> string \<Rightarrow> nat \<Rightarrow> request" where
  "refresh_request e refreshTokenStr sig =
     \<lparr>url = apiBaseUrl e @ ''/auth/refresh'',
      req_method = Some ''POST'',
      req_body = None,
      req_headers = [''Authorization'' \<mapsto> ''Bearer '' @ refreshTokenStr,
                     ''Content-Type'' \<mapsto> ''application/json''],
      req_mode = ''cors'',
      req_credentials = ''include'',
      signal = sig\<rparr>"

definition refreshToken_start :: "env \<Rightarrow> state \<Rightarrow> started \<times> state" where
  "refreshToken_start e s =
     (case refreshInProgress s of
        Some p \<Rightarrow> (Joined p, s)
      | None \<Rightarrow>
          (case truthy (cookies s ''refreshToken'') of
             None \<Rightarrow>
               (Thrown (Error ''No refresh token found''),
                Cookies_remove ''userData'' (Cookies_remove ''accessToken'' s))
           | Some refreshTokenStr \<Rightarrow>
               (let (c, s1) = createAbortController REQUEST_TIMEOUT s;
                    req = refresh_request e refreshTokenStr (cid c);
                    (sent, s2) = fetch_send req c s1;
                    p = promises s2
                in (Issued p req c sent,
                    s2\<lparr>refreshInProgress := Some p, promises := p + 1\<rparr>))))"

text \<open>
  \<open>error_message\<close> is \<open>errorData.message || fallback\<close>, where \<open>errorData\<close> is the parsed
  body, or the empty object when the body does not parse.
\<close>

definition error_message :: "response \<Rightarrow> string \<Rightarrow> string" where
  "error_message r fallback =
     (case json_body r of
        None \<Rightarrow> fallback
      | Some errorData \<Rightarrow>
          (case truthy (message errorData) of
             None \<Rightarrow> fallback
           | Some m \<Rightarrow> m))"

text \<open>
  \<open>refreshToken_resume\<close> is the rest of the promise body once \<open>fetch\<close> has settled with
  \<open>out\<close>: the \<open>try\<close> block, the \<open>catch\<close> block and the \<open>finally\<close> block.
\<close>

definition refresh_try :: "(error + response) \<Rightarrow> state \<Rightarrow> (error + string) \<times> state" where
  "refresh_try out s =
     (case out of
        Inl err \<Rightarrow> (Inl err, s)
      | Inr r \<Rightarrow>
          if \<not> ok r then
            (Inl (Error (error_message r (''HTTP error '' @ string_of_nat (status r)))), s)
          else (case json_body r of
                  None \<Rightarrow> (Inl SyntaxError, s)
                | Some data \<Rightarrow>
                    (Inr (access_token data),
                     Cookies_set ''accessToken'' (access_token data) s)))"

definition refresh_catch :: "error \<Rightarrow> state \<Rightarrow> (error + string) \<times> state" where
  "refresh_catch err s =
     (if err = AbortError then
        (Inl (Error (''Auth request timed out after '' @ string_of_nat REQUEST_TIMEOUT @ ''ms'')), s)
      else (Inl err, clear_session s))"

definition refreshToken_resume :: "(error + response) \<Rightarrow> state \<Rightarrow> (error + string) \<times> state" where
  "refreshToken_resume out s =
     (let (r, s1) = (case refresh_try out s of
                       (Inl err, s') \<Rightarrow> refresh_catch err s'
                     | (Inr t, s') \<Rightarrow> (Inr t, s'))
      in (r, s1\<lparr>refreshInProgress := None\<rparr>))"

text \<open>A caller that was handed the pending promise waits for it to settle.\<close>

definition await_pending :: "env \<Rightarrow> state \<Rightarrow> (error + string) \<times> state" where
  "await_pending e s =
     (let w = pending e s
      in (outcome w,
          s\<lparr>cookies := cookies_after w, now := now s + elapsed w,
            refreshInProgress := None\<rparr>))"

definition refreshToken :: "env \<Rightarrow> state \<Rightarrow> (error + string) \<times> state" where
  "refreshToken e s =
     (case refreshToken_start e s of
        (Joined p, s1) \<Rightarrow> await_pending e s1
      | (Thrown err, s1) \<Rightarrow> (Inl err, s1)
      | (Issued p req c sent, s1) \<Rightarrow>
          (case (case sent of
                   None \<Rightarrow> (Inl AbortError, s1)
                 | Some i \<Rightarrow> fetch_settle (net e i req) c s1) of
             (out, s2) \<Rightarrow> refreshToken_resume out s2))"

subsection \<open>fetchWithAuth\<close>

definition api_request ::
  "env \<Rightarrow> string \<Rightarrow> RequestInit \<Rightarrow> (string \<rightharpoonup> string) \<Rightarrow> nat \<Rightarrow> request" where
  "api_request e endpoint options hs sig =
     \<lparr>url = apiBaseUrl e @ endpoint,
      req_method = http_method options,
      req_body = body options,
      req_headers = hs,
      req_mode = ''cors'',
      req_credentials = ''include'',
      signal = sig\<rparr>"

definition isFormData :: "RequestInit \<Rightarrow> bool" where
  "isFormData options = (case body options of Some (FormData _) \<Rightarrow> True | _ \<Rightarrow> False)"

text \<open>The headers of the first request, and those of the request re-issued after a refresh.\<close>

definition request_headers :: "string option \<Rightarrow> RequestInit \<Rightarrow> (string \<rightharpoonup> string)" where
  "request_headers token options =
     (if isFormData options then
        [''Authorization'' \<mapsto> (case truthy token of Some t \<Rightarrow> ''Bearer '' @ t | None \<Rightarrow> '''')]
      else buildHeaders token (headers options))"

definition refreshedHeaders :: "string \<Rightarrow> RequestInit \<Rightarrow> (string \<rightharpoonup> string)" where
  "refreshedHeaders newToken options =
     (if isFormData options then [''Authorization'' \<mapsto> ''Bearer '' @ newToken]
      else buildHeaders (Some newToken) (headers options))"

definition auth_failed :: "state \<Rightarrow> (error + response) \<times> state" where
  "auth_failed s =
     (Inl (Error ''Authentication failed''), (clear_session s)\<lparr>location_href := ''/login''\<rparr>)"

text \<open>
  \<open>attempt\<close> is the body of \<open>fetchWithAuth\<close> down to the end of the \<open>401\<close> branch: it
  yields the response the rest of the function looks at, or what was thrown. The line
  written by \<open>console.error\<close> is left out.
\<close>

definition attempt :: "env \<Rightarrow> string \<Rightarrow> RequestInit \<Rightarrow> state \<Rightarrow> (error + response) \<times> state" where
  "attempt e endpoint options s =
     (let token = truthy (cookies s ''accessToken'');
          (c, s0) = createAbortController REQUEST_TIMEOUT s;
          hs = request_headers token options
      in case fetch e (api_request e endpoint options hs (cid c)) c s0 of
           (Inl err, s1) \<Rightarrow> (Inl err, s1)
         | (Inr r, s1) \<Rightarrow>
             if status r = 401 then
               (case refreshToken e s1 of
                  (Inl err, s2) \<Rightarrow> auth_failed s2
                | (Inr newToken, s2) \<Rightarrow>
                    (case fetch e (api_request e endpoint options
                                     (refreshedHeaders newToken options) (cid c)) c s2 of
                       (Inl err, s3) \<Rightarrow> auth_failed s3
                     | (Inr r2, s3) \<Rightarrow> (Inr r2, s3)))
             else (Inr r, s1))"

text \<open>
  The rest of the function: the retry test with its backoff wait, the failure for a
  response that is not \<open>ok\<close>, the payload, and the outer \<open>catch\<close>, which only renames
  an \<open>AbortError\<close>. The retry counter is a natural number; every caller in the
  repository starts it at 0. The recursive call is returned, not awaited, so what it
  yields is the result as it stands.
\<close>

definition backoffTime :: "nat \<Rightarrow> nat" where
  "backoffTime retries = min (1000 * 2 ^ retries) 10000"

definition outer_catch :: "error \<Rightarrow> error" where
  "outer_catch err =
     (if err = AbortError
      then Error (''Request timed out after '' @ string_of_nat REQUEST_TIMEOUT @ ''ms'')
      else err)"

definition deliver :: "responseType \<Rightarrow> response \<Rightarrow> error + payload" where
  "deliver responseType r =
     (if \<not> ok r then Inl (Error (error_message r (''API error: '' @ string_of_nat (status r))))
      else (case responseType of
              blob_type \<Rightarrow> Inr (BlobPayload (blob_body r))
            | json_type \<Rightarrow>
                (case json_body r of
                   None \<Rightarrow> Inl SyntaxError
                 | Some d \<Rightarrow> Inr (JsonPayload d))))"

definition retriable :: "response \<Rightarrow> nat \<Rightarrow> bool" where
  "retriable r retries = (\<not> ok r \<and> status r \<ge> 500 \<and> retries < MAX_RETRIES)"

function fetchWithAuth ::
  "env \<Rightarrow> string \<Rightarrow> RequestInit \<Rightarrow> nat \<Rightarrow> responseType \<Rightarrow> state \<Rightarrow> (error + payload) \<times> state" where
  "fetchWithAuth e endpoint options retries responseType s =
     (let a = attempt e endpoint options s
      in case fst a of
           Inl err \<Rightarrow> (Inl (outer_catch err), snd a)
         | Inr r \<Rightarrow>
             if retriable r retries then
               fetchWithAuth e endpoint options (retries + 1) responseType
                 (sleep (backoffTime retries) (snd a))
             else (deliver responseType r, snd a))"
  by pat_completeness auto
termination
  by (relation "measure (\<lambda>(e, endpoint, options, retries, responseType, s). MAX_RETRIES - retries)")
     (auto simp: retriable_def)

declare fetchWithAuth.simps [simp del]

subsection \<open>Concurrent callers of refreshToken\<close>

text \<open>
  The browser runs one task at a time and a task gives up control only at an \<open>await\<close>.
  So an interleaving of callers of \<open>refreshToken\<close> is a sequence of two kinds of atomic
  actions: a caller invokes the function and runs \<open>refreshToken_start\<close>, or the
  \<open>fetch\<close> of a pending refresh settles with some outcome and \<open>refreshToken_resume\<close>
  runs. Beside the client state the system keeps the book: the promises whose request
  is out, who awaits which promise, what each caller was handed in the end, and which
  network call was made for which promise. A settlement named for a promise that is not
  in flight changes nothing.
\<close>

record system =
  st :: state
  inflight :: "nat list"
  awaiting :: "(nat \<times> nat) list"
  observed :: "(nat \<times> nat option \<times> (error + string)) list"
  requests :: "(nat \<times> nat option) list"

datatype action = Invoke nat | Settle nat "error + response"

definition invoke :: "env \<Rightarrow> nat \<Rightarrow> system \<Rightarrow> system" where
  "invoke e caller y =
     (case refreshToken_start e (st y) of
        (Joined p, s1) \<Rightarrow> y\<lparr>st := s1, awaiting := awaiting y @ [(caller, p)]\<rparr>
      | (Thrown err, s1) \<Rightarrow> y\<lparr>st := s1, observed := observed y @ [(caller, None, Inl err)]\<rparr>
      | (Issued p req c sent, s1) \<Rightarrow>
          y\<lparr>st := s1, inflight := inflight y @ [p],
            awaiting := awaiting y @ [(caller, p)],
            requests := requests y @ [(p, sent)]\<rparr>)"

definition settle :: "nat \<Rightarrow> (error + response) \<Rightarrow> system \<Rightarrow> system" where
  "settle p out y =
     (if p \<in> set (inflight y) then
        (case refreshToken_resume out (st y) of
           (r, s1) \<Rightarrow>
             y\<lparr>st := s1, inflight := removeAll p (inflight y),
               observed := observed y @
                 map (\<lambda>(caller, q). (caller, Some q, r))
                   (filter (\<lambda>(caller, q). q = p) (awaiting y)),
               awaiting := filter (\<lambda>(caller, q). q \<noteq> p) (awaiting y)\<rparr>)
      else y)"

fun step :: "env \<Rightarrow> action \<Rightarrow> system \<Rightarrow> system" where
  "step e (Invoke caller) y = invoke e caller y"
| "step e (Settle p out) y = settle p out y"

definition run :: "env \<Rightarrow> action list \<Rightarrow> system \<Rightarrow> system" where
  "run e acts y = foldl (\<lambda>y' a. step e a y') y acts"

definition init_system :: "state \<Rightarrow> system" where
  "init_system s =
     \<lparr>st = s\<lparr>refreshInProgress := None\<rparr>, inflight = [], awaiting = [], observed = [],
      requests = []\<rparr>"

subsection \<open>Concrete inputs\<close>

text \<open>
  A logged-in session, and a network that answers the \<open>i\<close>-th request sent with the
  \<open>i\<close>-th entry of a script (a latency and a status); past the end of the script the
  network is down.
\<close>

definition demo_cookies :: "string \<rightharpoonup> string" where
  "demo_cookies =
     [''accessToken'' \<mapsto> ''old'', ''refreshToken'' \<mapsto> ''ref'',
      ''userData'' \<mapsto> ''{}'', ''loginTime'' \<mapsto> ''t0'']"

definition demo_state :: state where
  "demo_state =
     \<lparr>cookies = demo_cookies, refreshInProgress = None, promises = 0, now = 0,
      controllers = 0, calls = 0, trace = [], location_href = ''/dashboard''\<rparr>"

definition demo_response :: "nat \<Rightarrow> response" where
  "demo_response code =
     \<lparr>status = code, json_body = Some \<lparr>message = None, access_token = ''new''\<rparr>,
      blob_body = ''''\<rparr>"

definition scripted :: "(nat \<times> nat) list \<Rightarrow> env" where
  "scripted script =
     \<lparr>apiBaseUrl = ''https://api'',
      net = (\<lambda>i req. case drop i script of
                        [] \<Rightarrow> \<lparr>latency = 0, result = NetworkFailure\<rparr>
                      | (l, code) # _ \<Rightarrow>
                          \<lparr>latency = l, result = Responded (demo_response code)\<rparr>),
      pending = (\<lambda>s. \<lparr>outcome = Inl TypeError, cookies_after = cookies s, elapsed = 0\<rparr>)\<rparr>"

definition demo_options :: RequestInit where
  "demo_options = \<lparr>http_method = Some ''GET'', body = None, headers = None\<rparr>"

definition demo_upload :: RequestInit where
  "demo_upload =
     \<lparr>http_method = Some ''POST'', body = Some (FormData [(''file'', ''report.pdf'')]),
      headers = Some (HeadersRecord [])\<rparr>"

subsection \<open>Names for the requests of one call\<close>

text \<open>
  The requests a call of \<open>fetchWithAuth\<close> sends when the stored credentials do not
  change on the way: the \<open>i\<close>-th attempt runs under the \<open>i\<close>-th timer created from the
  start, and its request is the \<open>i\<close>-th sent. \<open>after_first\<close> is the state in which the
  reply to the first request of a call has just arrived; \<open>reissued_request\<close> is the
  request sent again after a refresh that produced \<open>newToken\<close>.
\<close>

definition nth_request :: "env \<Rightarrow> string \<Rightarrow> RequestInit \<Rightarrow> state \<Rightarrow> nat \<Rightarrow> request" where
  "nth_request e endpoint options s i =
     api_request e endpoint options
       (request_headers (truthy (cookies s ''accessToken'')) options) (controllers s + i)"

definition nth_reply :: "env \<Rightarrow> string \<Rightarrow> RequestInit \<Rightarrow> state \<Rightarrow> nat \<Rightarrow> reply" where
  "nth_reply e endpoint options s i = net e (calls s + i) (nth_request e endpoint options s i)"

definition after_first :: "env \<Rightarrow> string \<Rightarrow> RequestInit \<Rightarrow> state \<Rightarrow> state" where
  "after_first e endpoint options s =
     s\<lparr>controllers := controllers s + 1,
       calls := calls s + 1,
       trace := trace s @ [Fetch (nth_request e endpoint options s 0)],
       now := now s + latency (nth_reply e endpoint options s 0)\<rparr>"

definition reissued_request :: "env \<Rightarrow> string \<Rightarrow> RequestInit \<Rightarrow> state \<Rightarrow> string \<Rightarrow> request" where
  "reissued_request e endpoint options s newToken =
     api_request e endpoint options (refreshedHeaders newToken options) (controllers s)"

text \<open>
  The headers the caller passed in \<open>options.headers\<close>, read as a record: the entries
  \<open>buildHeaders\<close> lays over its default, under the names it lays them.
\<close>

definition supplied :: "HeadersInit option \<Rightarrow> (string \<rightharpoonup> string)" where
  "supplied existingHeaders =
     (case existingHeaders of
        None \<Rightarrow> Map.empty
      | Some (Headers kvs) \<Rightarrow>
          foldl (\<lambda>acc (key, v). acc(key \<mapsto> v)) Map.empty (Headers_forEach kvs)
      | Some (HeadersArray kvs) \<Rightarrow> merge_defined Map.empty kvs
      | Some (HeadersRecord kvs) \<Rightarrow> merge_defined Map.empty kvs)"

definition demo_text_options :: RequestInit where
  "demo_text_options =
     \<lparr>http_method = Some ''POST'', body = Some (BodyText ''a,b''),
      headers = Some (HeadersRecord [(''Content-Type'', Some ''text/csv''),
                                    (''Authorization'', Some ''Basic abc'')])\<rparr>"

definition demo_object_options :: RequestInit where
  "demo_object_options =
     \<lparr>http_method = Some ''POST'', body = Some (BodyText ''a,b''),
      headers = Some (Headers [(''Content-Type'', ''text/csv''),
                               (''Authorization'', ''Basic abc'')])\<rparr>"

definition logged_out :: state where
  "logged_out = demo_state\<lparr>cookies := Map.empty\<rparr>"

text \<open>
  What holds of the book in every reachable state, for a run that started in \<open>s0\<close>:
  the promises in flight are exactly the one the marker names; whoever awaits, awaits a
  promise in flight; an outcome was handed out only for promises that are no longer in
  flight, and the same outcome to everyone who awaited the same promise; promises and
  network calls were made in step, one call for each promise.
\<close>

definition single_flight :: "state \<Rightarrow> system \<Rightarrow> bool" where
  "single_flight s0 y \<longleftrightarrow>
     inflight y = (case refreshInProgress (st y) of None \<Rightarrow> [] | Some p \<Rightarrow> [p]) \<and>
     (\<forall>p. p \<in> set (inflight y) \<longrightarrow> promises s0 \<le> p \<and> p < promises (st y)) \<and>
     (\<forall>c p. (c, p) \<in> set (awaiting y) \<longrightarrow> p \<in> set (inflight y)) \<and>
     (\<forall>c p r. (c, Some p, r) \<in> set (observed y) \<longrightarrow>
        promises s0 \<le> p \<and> p < promises (st y) \<and> p \<notin> set (inflight y)) \<and>
     (\<forall>c c' p r r'. (c, Some p, r) \<in> set (observed y) \<and> (c', Some p, r') \<in> set (observed y)
        \<longrightarrow> r = r') \<and>
     promises s0 \<le> promises (st y) \<and> calls s0 \<le> calls (st y) \<and>
     map fst (requests y) = [promises s0 ..< promises (st y)] \<and>
     map snd (requests y) = map Some [calls s0 ..< calls (st y)]"

section \<open>Properties of the route guard\<close>






section \<open>Properties of refreshToken\<close>

lemma timeout_text: "string_of_nat 30000 = ''30000''"
  by (simp add: string_of_nat.simps digit_char_def)

lemmas refresh_defs =
  refreshToken_def refreshToken_start_def createAbortController_def fetch_send_def
  fetch_settle_def refreshToken_resume_def refresh_try_def refresh_catch_def clear_session_def
  Cookies_remove_def Cookies_set_def await_pending_def Let_def

lemmas demo_defs =
  demo_state_def demo_cookies_def demo_response_def scripted_def demo_options_def
  demo_upload_def

text \<open>
  Claim C6. When no refresh is pending and no refresh credential is stored (the cookie
  is missing or empty), \<open>refreshToken\<close> sends nothing: the trace and the count of
  network calls are unchanged and no time passes; it removes the access credential and
  the cached user profile and fails with \<open>No refresh token found\<close>.
\<close>

theorem C6_no_refresh_token_no_network_call:
  "refreshInProgress s = None \<Longrightarrow> truthy (cookies s ''refreshToken'') = None \<Longrightarrow>
     fst (refreshToken e s) = Inl (Error ''No refresh token found'') \<and>
     calls (snd (refreshToken e s)) = calls s \<and>
     trace (snd (refreshToken e s)) = trace s \<and>
     now (snd (refreshToken e s)) = now s \<and>
     cookies (snd (refreshToken e s)) = (cookies s)(''accessToken'' := None, ''userData'' := None)"
  by (simp add: refresh_defs)

theorem C6_witness:
  "fst (refreshToken (scripted []) (demo_state\<lparr>cookies := [''accessToken'' \<mapsto> ''old'']\<rparr>))
     = Inl (Error ''No refresh token found'') \<and>
   calls (snd (refreshToken (scripted []) (demo_state\<lparr>cookies := [''accessToken'' \<mapsto> ''old'']\<rparr>)))
     = 0 \<and>
   cookies (snd (refreshToken (scripted []) (demo_state\<lparr>cookies := [''accessToken'' \<mapsto> ''old'']\<rparr>)))
     ''accessToken'' = None"
  using C6_no_refresh_token_no_network_call
          [of "demo_state\<lparr>cookies := [''accessToken'' \<mapsto> ''old'']\<rparr>" "scripted []"]
  by (simp add: demo_state_def truthy_def)

text \<open>
  Claim C2, as amended. A call of \<open>refreshToken\<close> with no refresh pending and a refresh
  credential \<open>t\<close> stored sends exactly one request. When the reply does not arrive
  before the timer fires the call fails with the timeout error and leaves the cookies
  as they were. In every other failing execution all four session entries are removed
  before the failure reaches the caller.
\<close>

theorem C2_failed_refresh_clears_session_unless_timeout:
  assumes "refreshInProgress s = None" and "truthy (cookies s ''refreshToken'') = Some t"
  shows "let r = net e (calls s) (refresh_request e t (controllers s));
             R = refreshToken e s
         in calls (snd R) = calls s + 1 \<and>
            trace (snd R) = trace s @ [Fetch (refresh_request e t (controllers s))] \<and>
            (REQUEST_TIMEOUT \<le> latency r \<longrightarrow>
               fst R = Inl (Error ''Auth request timed out after 30000ms'') \<and>
               cookies (snd R) = cookies s) \<and>
            (latency r < REQUEST_TIMEOUT \<longrightarrow>
               (\<forall>err. fst R = Inl err \<longrightarrow>
                  cookies (snd R) ''accessToken'' = None \<and>
                  cookies (snd R) ''refreshToken'' = None \<and>
                  cookies (snd R) ''userData'' = None \<and>
                  cookies (snd R) ''loginTime'' = None))"
  using assms
  by (auto simp: refresh_defs timeout_text REQUEST_TIMEOUT_def
           split: net_result.splits option.splits)

theorem C2_witness:
  "fst (refreshToken (scripted [(120, 401)]) demo_state) = Inl (Error ''HTTP error 401'') \<and>
   calls (snd (refreshToken (scripted [(120, 401)]) demo_state)) = 1 \<and>
   cookies (snd (refreshToken (scripted [(120, 401)]) demo_state)) ''accessToken'' = None \<and>
   cookies (snd (refreshToken (scripted [(120, 401)]) demo_state)) ''refreshToken'' = None \<and>
   cookies (snd (refreshToken (scripted [(120, 401)]) demo_state)) ''userData'' = None \<and>
   cookies (snd (refreshToken (scripted [(120, 401)]) demo_state)) ''loginTime'' = None"
proof -
  have pre: "refreshInProgress demo_state = None"
      "truthy (cookies demo_state ''refreshToken'') = Some ''ref''"
    by (simp_all add: demo_defs truthy_def)
  have res: "fst (refreshToken (scripted [(120, 401)]) demo_state) = Inl (Error ''HTTP error 401'')"
    by (simp add: refresh_defs demo_defs truthy_def REQUEST_TIMEOUT_def refresh_request_def
                  ok_def error_message_def string_of_nat.simps digit_char_def)
  have lat: "latency (net (scripted [(120, 401)]) (calls demo_state)
                        (refresh_request (scripted [(120, 401)]) ''ref'' (controllers demo_state)))
               = 120"
    by (simp add: demo_defs)
  show ?thesis
    using C2_failed_refresh_clears_session_unless_timeout
            [OF pre, of "scripted [(120, 401)]"] res lat
    by (simp add: Let_def REQUEST_TIMEOUT_def demo_state_def)
qed

text \<open>
  Claim C2 as stated fails: when the refresh request times out, \<open>refreshToken\<close> throws
  the timeout error from the first branch of its \<open>catch\<close> block, before the four
  \<open>Cookies.remove\<close> calls, and every session entry is still stored.
\<close>

theorem C2_counterexample:
  "fst (refreshToken (scripted [(30000, 200)]) demo_state)
     = Inl (Error ''Auth request timed out after 30000ms'') \<and>
   calls (snd (refreshToken (scripted [(30000, 200)]) demo_state)) = 1 \<and>
   cookies (snd (refreshToken (scripted [(30000, 200)]) demo_state)) ''accessToken''
     = Some ''old'' \<and>
   cookies (snd (refreshToken (scripted [(30000, 200)]) demo_state)) ''refreshToken''
     = Some ''ref'' \<and>
   cookies (snd (refreshToken (scripted [(30000, 200)]) demo_state)) ''userData''
     = Some ''{}'' \<and>
   cookies (snd (refreshToken (scripted [(30000, 200)]) demo_state)) ''loginTime''
     = Some ''t0''"
  by (simp add: refresh_defs demo_defs truthy_def REQUEST_TIMEOUT_def refresh_request_def
                timeout_text)

section \<open>Properties of fetchWithAuth\<close>

lemma first_fetch:
  "fetch e (nth_request e endpoint options s 0)
     \<lparr>cid = controllers s, deadline = now s + REQUEST_TIMEOUT\<rparr>
     (s\<lparr>controllers := Suc (controllers s)\<rparr>) =
   (if REQUEST_TIMEOUT \<le> latency (nth_reply e endpoint options s 0)
    then (Inl AbortError, (after_first e endpoint options s)\<lparr>now := now s + REQUEST_TIMEOUT\<rparr>)
    else (case result (nth_reply e endpoint options s 0) of
            NetworkFailure \<Rightarrow> Inl TypeError
          | Responded resp \<Rightarrow> Inr resp,
          after_first e endpoint options s))"
  by (simp add: fetch_def fetch_send_def fetch_settle_def nth_reply_def after_first_def
                REQUEST_TIMEOUT_def Let_def split: net_result.splits)

lemma attempt_unfold:
  "attempt e endpoint options s =
     (case fetch e (nth_request e endpoint options s 0)
             \<lparr>cid = controllers s, deadline = now s + REQUEST_TIMEOUT\<rparr>
             (s\<lparr>controllers := Suc (controllers s)\<rparr>) of
        (Inl err, s1) \<Rightarrow> (Inl err, s1)
      | (Inr r, s1) \<Rightarrow>
          if status r = 401 then
            (case refreshToken e s1 of
               (Inl err, s2) \<Rightarrow> auth_failed s2
             | (Inr newToken, s2) \<Rightarrow>
                 (case fetch e (reissued_request e endpoint options s newToken)
                         \<lparr>cid = controllers s, deadline = now s + REQUEST_TIMEOUT\<rparr> s2 of
                    (Inl err, s3) \<Rightarrow> auth_failed s3
                  | (Inr r2, s3) \<Rightarrow> (Inr r2, s3)))
          else (Inr r, s1))"
  by (simp add: attempt_def createAbortController_def nth_request_def reissued_request_def Let_def
           split: prod.splits sum.splits)

lemma attempt_401:
  assumes "result (nth_reply e endpoint options s 0) = Responded resp"
    and "latency (nth_reply e endpoint options s 0) < REQUEST_TIMEOUT"
    and "status resp = 401"
  shows "attempt e endpoint options s =
           (case refreshToken e (after_first e endpoint options s) of
              (Inl err, s2) \<Rightarrow> auth_failed s2
            | (Inr newToken, s2) \<Rightarrow>
                (case fetch e (reissued_request e endpoint options s newToken)
                        \<lparr>cid = controllers s, deadline = now s + REQUEST_TIMEOUT\<rparr> s2 of
                   (Inl err, s3) \<Rightarrow> auth_failed s3
                 | (Inr r2, s3) \<Rightarrow> (Inr r2, s3)))"
  using assms by (simp add: attempt_unfold first_fetch)

lemma attempt_plain:
  assumes "result (nth_reply e endpoint options s 0) = Responded resp"
    and "latency (nth_reply e endpoint options s 0) < REQUEST_TIMEOUT"
    and "status resp \<noteq> 401"
  shows "attempt e endpoint options s = (Inr resp, after_first e endpoint options s)"
  using assms by (simp add: attempt_unfold first_fetch)

lemma attempt_abort:
  assumes "REQUEST_TIMEOUT \<le> latency (nth_reply e endpoint options s 0)"
  shows "attempt e endpoint options s =
           (Inl AbortError, (after_first e endpoint options s)\<lparr>now := now s + REQUEST_TIMEOUT\<rparr>)"
  using assms by (simp add: attempt_unfold first_fetch)

lemma fetchWithAuth_retry:
  assumes "attempt e endpoint options s = (Inr resp, s1)" and "500 \<le> status resp" and "retries < 2"
  shows "fetchWithAuth e endpoint options retries rt s =
           fetchWithAuth e endpoint options (retries + 1) rt (sleep (backoffTime retries) s1)"
  using assms
  by (subst fetchWithAuth.simps) (simp add: retriable_def ok_def MAX_RETRIES_def)

lemma fetchWithAuth_final:
  assumes "attempt e endpoint options s = (Inr resp, s1)" and "\<not> retriable resp retries"
  shows "fetchWithAuth e endpoint options retries rt s = (deliver rt resp, s1)"
  using assms
  by (subst fetchWithAuth.simps) simp

lemma fetchWithAuth_thrown:
  assumes "attempt e endpoint options s = (Inl err, s1)"
  shows "fetchWithAuth e endpoint options retries rt s = (Inl (outer_catch err), s1)"
  using assms
  by (subst fetchWithAuth.simps) simp


lemma backoff_values: "backoffTime 0 = 1000" "backoffTime 1 = 2000" "backoffTime (Suc 0) = 2000"
  by (simp_all add: backoffTime_def)

lemma not_retriable_client: "status resp < 500 \<Longrightarrow> \<not> retriable resp retries"
  by (simp add: retriable_def)

lemma not_retriable_exhausted: "2 \<le> retries \<Longrightarrow> \<not> retriable resp retries"
  by (simp add: retriable_def MAX_RETRIES_def)

lemma deliver_failure:
  "\<not> ok resp \<Longrightarrow>
     deliver rt resp = Inl (Error (error_message resp (''API error: '' @ string_of_nat (status resp))))"
  by (simp add: deliver_def)

lemma after_first_simps:
  "calls (after_first e endpoint options s) = calls s + 1"
  "controllers (after_first e endpoint options s) = controllers s + 1"
  "trace (after_first e endpoint options s) = trace s @ [Fetch (nth_request e endpoint options s 0)]"
  "now (after_first e endpoint options s) = now s + latency (nth_reply e endpoint options s 0)"
  "cookies (after_first e endpoint options s) = cookies s"
  "refreshInProgress (after_first e endpoint options s) = refreshInProgress s"
  "promises (after_first e endpoint options s) = promises s"
  "location_href (after_first e endpoint options s) = location_href s"
  by (simp_all add: after_first_def)

lemma sleep_simps:
  "calls (sleep ms s) = calls s"
  "controllers (sleep ms s) = controllers s"
  "trace (sleep ms s) = trace s @ [Sleep ms]"
  "now (sleep ms s) = now s + ms"
  "cookies (sleep ms s) = cookies s"
  "refreshInProgress (sleep ms s) = refreshInProgress s"
  "promises (sleep ms s) = promises s"
  "location_href (sleep ms s) = location_href s"
  by (simp_all add: sleep_def)

lemma next_attempt:
  "nth_request e endpoint options (sleep ms (after_first e endpoint options s)) i
     = nth_request e endpoint options s (Suc i)"
  "nth_reply e endpoint options (sleep ms (after_first e endpoint options s)) i
     = nth_reply e endpoint options s (Suc i)"
  by (simp_all add: nth_reply_def nth_request_def sleep_def after_first_def)

text \<open>
  Claim C4. When the first response of a call is a client error other than \<open>401\<close>, the
  call fails at once, whatever the retry counter: one request is sent and nothing else is
  in the trace (no wait, no second request, no refresh request), the clock has advanced by
  the latency of that one reply only, and cookies, the refresh marker and the location
  are untouched. The error carries the message of the parsed body when there is a
  non-empty one, and \<open>API error: <status>\<close> when the body does not parse (or parses
  without a message).
\<close>

theorem C4_client_error_fails_after_one_call:
  assumes "result (nth_reply e endpoint options s 0) = Responded resp"
    and "latency (nth_reply e endpoint options s 0) < REQUEST_TIMEOUT"
    and "400 \<le> status resp" and "status resp < 500" and "status resp \<noteq> 401"
  shows "let R = fetchWithAuth e endpoint options retries rt s;
             generic = ''API error: '' @ string_of_nat (status resp)
         in fst R = Inl (Error (error_message resp generic)) \<and>
            (\<forall>d m. json_body resp = Some d \<and> message d = Some m \<and> m \<noteq> []
               \<longrightarrow> error_message resp generic = m) \<and>
            (json_body resp = None \<longrightarrow> error_message resp generic = generic) \<and>
            (\<forall>d. json_body resp = Some d \<and> truthy (message d) = None
               \<longrightarrow> error_message resp generic = generic) \<and>
            calls (snd R) = calls s + 1 \<and>
            trace (snd R) = trace s @ [Fetch (nth_request e endpoint options s 0)] \<and>
            now (snd R) = now s + latency (nth_reply e endpoint options s 0) \<and>
            cookies (snd R) = cookies s \<and>
            refreshInProgress (snd R) = refreshInProgress s \<and>
            promises (snd R) = promises s \<and>
            location_href (snd R) = location_href s"
proof -
  have a: "attempt e endpoint options s = (Inr resp, after_first e endpoint options s)"
    using assms by (intro attempt_plain)
  have nok: "\<not> ok resp"
    using assms by (simp add: ok_def)
  have "fetchWithAuth e endpoint options retries rt s
          = (deliver rt resp, after_first e endpoint options s)"
    using a assms by (intro fetchWithAuth_final not_retriable_client)
  then show ?thesis
    using nok
    by (simp add: deliver_failure Let_def after_first_def error_message_def truthy_def)
qed

text \<open>
  Claim C3. Whenever the response the retry test looks at has a status of 500 or more
  and the retry counter is below 2, the call waits \<open>min (1000 * 2 ^ retries) 10000\<close>
  milliseconds and then is the same call with the counter incremented. In particular,
  from counter 0, when the first two replies are server errors and the third reply is
  either a 200 or again a server error, exactly three requests are sent, with waits of
  1000 and 2000 milliseconds between them; the call then delivers the third response,
  which is a failure when that one is a server error too.
\<close>

theorem C3_server_error_backoff_and_retry:
  "(\<forall>resp s1. attempt e endpoint options s = (Inr resp, s1) \<and> 500 \<le> status resp \<and> retries < 2 \<longrightarrow>
      fetchWithAuth e endpoint options retries rt s =
        fetchWithAuth e endpoint options (retries + 1) rt
          (sleep (min (1000 * 2 ^ retries) 10000) s1) \<and>
      now (sleep (min (1000 * 2 ^ retries) 10000) s1) = now s1 + min (1000 * 2 ^ retries) 10000 \<and>
      trace (sleep (min (1000 * 2 ^ retries) 10000) s1)
        = trace s1 @ [Sleep (min (1000 * 2 ^ retries) 10000)]) \<and>
   ((\<forall>i<3. latency (nth_reply e endpoint options s i) < REQUEST_TIMEOUT) \<and>
    result (nth_reply e endpoint options s 0) = Responded r0 \<and> 500 \<le> status r0 \<and>
    result (nth_reply e endpoint options s 1) = Responded r1 \<and> 500 \<le> status r1 \<and>
    result (nth_reply e endpoint options s 2) = Responded r2 \<and>
    (status r2 = 200 \<or> 500 \<le> status r2) \<longrightarrow>
      (let R = fetchWithAuth e endpoint options 0 rt s
       in fst R = deliver rt r2 \<and>
          (500 \<le> status r2 \<longrightarrow>
             fst R = Inl (Error (error_message r2 (''API error: '' @ string_of_nat (status r2))))) \<and>
          calls (snd R) = calls s + 3 \<and>
          trace (snd R) = trace s @
            [Fetch (nth_request e endpoint options s 0), Sleep 1000,
             Fetch (nth_request e endpoint options s 1), Sleep 2000,
             Fetch (nth_request e endpoint options s 2)] \<and>
          now (snd R) = now s + latency (nth_reply e endpoint options s 0) + 1000
                          + latency (nth_reply e endpoint options s 1) + 2000
                          + latency (nth_reply e endpoint options s 2)))"
proof (intro conjI allI impI)
  fix resp s1
  assume h: "attempt e endpoint options s = (Inr resp, s1) \<and> 500 \<le> status resp \<and> retries < 2"
  then show "fetchWithAuth e endpoint options retries rt s =
        fetchWithAuth e endpoint options (retries + 1) rt
          (sleep (min (1000 * 2 ^ retries) 10000) s1)"
    using fetchWithAuth_retry[of e endpoint options s resp s1 retries rt]
    by (simp add: backoffTime_def)
  show "now (sleep (min (1000 * 2 ^ retries) 10000) s1) = now s1 + min (1000 * 2 ^ retries) 10000"
    by (simp add: sleep_def)
  show "trace (sleep (min (1000 * 2 ^ retries) 10000) s1)
        = trace s1 @ [Sleep (min (1000 * 2 ^ retries) 10000)]"
    by (simp add: sleep_def)
next
  assume h: "(\<forall>i<3. latency (nth_reply e endpoint options s i) < REQUEST_TIMEOUT) \<and>
    result (nth_reply e endpoint options s 0) = Responded r0 \<and> 500 \<le> status r0 \<and>
    result (nth_reply e endpoint options s 1) = Responded r1 \<and> 500 \<le> status r1 \<and>
    result (nth_reply e endpoint options s 2) = Responded r2 \<and>
    (status r2 = 200 \<or> 500 \<le> status r2)"
  define sa where "sa = after_first e endpoint options s"
  define sb where "sb = sleep 1000 sa"
  define sc where "sc = after_first e endpoint options sb"
  define sd where "sd = sleep 2000 sc"
  define se where "se = after_first e endpoint options sd"
  have lat: "latency (nth_reply e endpoint options s 0) < REQUEST_TIMEOUT"
      "latency (nth_reply e endpoint options s (Suc 0)) < REQUEST_TIMEOUT"
      "latency (nth_reply e endpoint options s (Suc (Suc 0))) < REQUEST_TIMEOUT"
    using h by (simp_all add: numeral_3_eq_3)
  have rep_b: "nth_reply e endpoint options sb 0 = nth_reply e endpoint options s (Suc 0)"
    unfolding sb_def sa_def by (rule next_attempt)
  have rep_d: "nth_reply e endpoint options sd 0 = nth_reply e endpoint options s (Suc (Suc 0))"
    unfolding sd_def sc_def by (simp add: next_attempt rep_b[unfolded sb_def sa_def] sb_def sa_def)
  have a0: "attempt e endpoint options s = (Inr r0, sa)"
    unfolding sa_def using h lat by (intro attempt_plain) auto
  have a1: "attempt e endpoint options sb = (Inr r1, sc)"
    unfolding sc_def using h lat rep_b by (intro attempt_plain) auto
  have a2: "attempt e endpoint options sd = (Inr r2, se)"
    unfolding se_def using h lat rep_d
    by (intro attempt_plain) (auto simp: numeral_2_eq_2)
  have f0: "fetchWithAuth e endpoint options 0 rt s = fetchWithAuth e endpoint options 1 rt sb"
    using fetchWithAuth_retry[OF a0, of 0 rt] h by (simp add: backoff_values sb_def)
  have f1: "fetchWithAuth e endpoint options 1 rt sb = fetchWithAuth e endpoint options 2 rt sd"
    using fetchWithAuth_retry[OF a1, of 1 rt] h by (simp add: backoff_values sd_def numeral_2_eq_2)
  have f2: "fetchWithAuth e endpoint options 2 rt sd = (deliver rt r2, se)"
    using a2 by (intro fetchWithAuth_final not_retriable_exhausted) auto
  have all: "fetchWithAuth e endpoint options 0 rt s = (deliver rt r2, se)"
    using f0 f1 f2 by simp
  have req_b: "nth_request e endpoint options sb 0 = nth_request e endpoint options s 1"
    unfolding sb_def sa_def by (simp add: next_attempt)
  have req_d: "nth_request e endpoint options sd 0 = nth_request e endpoint options s 2"
    unfolding sd_def sc_def sb_def sa_def by (simp add: next_attempt numeral_2_eq_2)
  have tr: "trace sa = trace s @ [Fetch (nth_request e endpoint options s 0)]"
      "trace sb = trace sa @ [Sleep 1000]"
      "trace sc = trace sb @ [Fetch (nth_request e endpoint options s 1)]"
      "trace sd = trace sc @ [Sleep 2000]"
      "trace se = trace sd @ [Fetch (nth_request e endpoint options s 2)]"
    by (simp add: sa_def after_first_simps, simp add: sb_def sleep_simps,
        simp add: sc_def after_first_simps req_b, simp add: sd_def sleep_simps,
        simp add: se_def after_first_simps req_d)
  have cl: "calls sa = calls s + 1" "calls sb = calls sa" "calls sc = calls sb + 1"
      "calls sd = calls sc" "calls se = calls sd + 1"
    by (simp_all add: sa_def sb_def sc_def sd_def se_def after_first_simps sleep_simps)
  have nw: "now sa = now s + latency (nth_reply e endpoint options s 0)"
      "now sb = now sa + 1000"
      "now sc = now sb + latency (nth_reply e endpoint options s 1)"
      "now sd = now sc + 2000"
      "now se = now sd + latency (nth_reply e endpoint options s 2)"
    by (simp add: sa_def after_first_simps, simp add: sb_def sleep_simps,
        simp add: sc_def after_first_simps rep_b, simp add: sd_def sleep_simps,
        simp add: se_def after_first_simps rep_d numeral_2_eq_2)
  have se_calls: "calls se = calls s + 3"
    by (simp add: cl)
  have se_trace: "trace se = trace s @
            [Fetch (nth_request e endpoint options s 0), Sleep 1000,
             Fetch (nth_request e endpoint options s 1), Sleep 2000,
             Fetch (nth_request e endpoint options s 2)]"
    by (simp add: tr)
  have se_now: "now se = now s + latency (nth_reply e endpoint options s 0) + 1000
                          + latency (nth_reply e endpoint options s 1) + 2000
                          + latency (nth_reply e endpoint options s 2)"
    by (simp add: nw)
  have fail: "500 \<le> status r2 \<Longrightarrow>
     deliver rt r2 = Inl (Error (error_message r2 (''API error: '' @ string_of_nat (status r2))))"
    by (intro deliver_failure) (simp add: ok_def)
  show "let R = fetchWithAuth e endpoint options 0 rt s
       in fst R = deliver rt r2 \<and>
          (500 \<le> status r2 \<longrightarrow>
             fst R = Inl (Error (error_message r2 (''API error: '' @ string_of_nat (status r2))))) \<and>
          calls (snd R) = calls s + 3 \<and>
          trace (snd R) = trace s @
            [Fetch (nth_request e endpoint options s 0), Sleep 1000,
             Fetch (nth_request e endpoint options s 1), Sleep 2000,
             Fetch (nth_request e endpoint options s 2)] \<and>
          now (snd R) = now s + latency (nth_reply e endpoint options s 0) + 1000
                          + latency (nth_reply e endpoint options s 1) + 2000
                          + latency (nth_reply e endpoint options s 2)"
    using all se_calls se_trace se_now fail by (simp add: Let_def)
qed



lemma demo_state_simps:
  "cookies demo_state = demo_cookies" "refreshInProgress demo_state = None"
  "promises demo_state = 0" "now demo_state = 0" "controllers demo_state = 0"
  "calls demo_state = 0" "trace demo_state = []" "location_href demo_state = ''/dashboard''"
  by (simp_all add: demo_state_def)

lemma numeral_text: "string_of_nat 403 = ''403''" "string_of_nat 502 = ''502''"
    "string_of_nat 401 = ''401''"
  by (simp_all add: string_of_nat.simps digit_char_def)

theorem C4_witness:
  "fst (fetchWithAuth (scripted [(80, 403)]) ''/organization/branches'' demo_options 0 json_type
          demo_state) = Inl (Error ''API error: 403'') \<and>
   calls (snd (fetchWithAuth (scripted [(80, 403)]) ''/organization/branches'' demo_options 0
                 json_type demo_state)) = 1 \<and>
   now (snd (fetchWithAuth (scripted [(80, 403)]) ''/organization/branches'' demo_options 0
               json_type demo_state)) = 80 \<and>
   cookies (snd (fetchWithAuth (scripted [(80, 403)]) ''/organization/branches'' demo_options 0
                   json_type demo_state)) = demo_cookies"
proof -
  have rep: "nth_reply (scripted [(80, 403)]) ''/organization/branches'' demo_options demo_state 0
               = \<lparr>latency = 80, result = Responded (demo_response 403)\<rparr>"
    by (simp add: nth_reply_def scripted_def demo_state_def)
  show ?thesis
    using C4_client_error_fails_after_one_call
            [of "scripted [(80, 403)]" "''/organization/branches''" demo_options demo_state
                "demo_response 403" 0 json_type]
    by (simp add: rep REQUEST_TIMEOUT_def Let_def error_message_def truthy_def numeral_text
                  demo_response_def demo_state_simps)
qed

theorem C3_witness:
  "fst (fetchWithAuth (scripted [(50, 500), (60, 500), (70, 200)]) ''/auth/profile''
          demo_options 0 json_type demo_state)
     = Inr (JsonPayload \<lparr>message = None, access_token = ''new''\<rparr>) \<and>
   calls (snd (fetchWithAuth (scripted [(50, 500), (60, 500), (70, 200)]) ''/auth/profile''
                 demo_options 0 json_type demo_state)) = 3 \<and>
   now (snd (fetchWithAuth (scripted [(50, 500), (60, 500), (70, 200)]) ''/auth/profile''
               demo_options 0 json_type demo_state)) = 3180 \<and>
   fst (fetchWithAuth (scripted [(50, 500), (60, 503), (70, 502)]) ''/auth/profile''
          demo_options 0 json_type demo_state)
     = Inl (Error ''API error: 502'') \<and>
   calls (snd (fetchWithAuth (scripted [(50, 500), (60, 503), (70, 502)]) ''/auth/profile''
                 demo_options 0 json_type demo_state)) = 3"
proof -
  have rep1:
      "nth_reply (scripted [(50, 500), (60, 500), (70, 200)]) ''/auth/profile'' demo_options
         demo_state 0 = \<lparr>latency = 50, result = Responded (demo_response 500)\<rparr>"
      "nth_reply (scripted [(50, 500), (60, 500), (70, 200)]) ''/auth/profile'' demo_options
         demo_state (Suc 0) = \<lparr>latency = 60, result = Responded (demo_response 500)\<rparr>"
      "nth_reply (scripted [(50, 500), (60, 500), (70, 200)]) ''/auth/profile'' demo_options
         demo_state 2 = \<lparr>latency = 70, result = Responded (demo_response 200)\<rparr>"
    by (simp_all add: nth_reply_def scripted_def demo_state_def)
  have rep2:
      "nth_reply (scripted [(50, 500), (60, 503), (70, 502)]) ''/auth/profile'' demo_options
         demo_state 0 = \<lparr>latency = 50, result = Responded (demo_response 500)\<rparr>"
      "nth_reply (scripted [(50, 500), (60, 503), (70, 502)]) ''/auth/profile'' demo_options
         demo_state (Suc 0) = \<lparr>latency = 60, result = Responded (demo_response 503)\<rparr>"
      "nth_reply (scripted [(50, 500), (60, 503), (70, 502)]) ''/auth/profile'' demo_options
         demo_state 2 = \<lparr>latency = 70, result = Responded (demo_response 502)\<rparr>"
    by (simp_all add: nth_reply_def scripted_def demo_state_def)
  have three: "(\<forall>i<3. P i) = (P 0 \<and> P 1 \<and> P (2::nat))" for P
    by (auto simp: numeral_3_eq_3 less_Suc_eq numeral_2_eq_2)
  show ?thesis
    using C3_server_error_backoff_and_retry
            [of "scripted [(50, 500), (60, 500), (70, 200)]" "''/auth/profile''" demo_options
                demo_state 0 json_type "demo_response 500" "demo_response 500"
                "demo_response 200"]
          C3_server_error_backoff_and_retry
            [of "scripted [(50, 500), (60, 503), (70, 502)]" "''/auth/profile''" demo_options
                demo_state 0 json_type "demo_response 500" "demo_response 503"
                "demo_response 502"]
    by (simp add: rep1 rep2 three REQUEST_TIMEOUT_def Let_def deliver_def ok_def
                  error_message_def truthy_def numeral_text demo_response_def demo_state_simps)
qed

lemma fetch_effect:
  assumes "fetch e req c s = (x, s1)"
  shows "trace s1 = trace s @ [Fetch req]" and "controllers s1 = controllers s"
    and "cookies s1 = cookies s" and "location_href s1 = location_href s"
  using assms
  by (auto simp: fetch_def fetch_send_def fetch_settle_def Let_def
           split: if_splits net_result.splits)

lemma fetch_in_time:
  assumes "fetch e req c s = (Inr r, s1)"
  shows "now s1 < deadline c" and "now s1 = now s + latency (net e (calls s) req)"
    and "calls s1 = calls s + 1"
  using assms
  by (auto simp: fetch_def fetch_send_def fetch_settle_def Let_def
           split: if_splits net_result.splits)

lemma fetch_late:
  assumes "deadline c \<le> now s + latency (net e (calls s) req)"
  shows "fst (fetch e req c s) = Inl AbortError"
  using assms
  by (auto simp: fetch_def fetch_send_def fetch_settle_def Let_def
           split: if_splits net_result.splits)

lemma refreshToken_effect:
  assumes "refreshToken e s = (y, s2)"
  shows "\<exists>evs. trace s2 = trace s @ evs \<and> length evs \<le> 1"
    and "controllers s \<le> controllers s2"
  using assms
  by (auto simp: refresh_defs split: option.splits if_splits net_result.splits sum.splits prod.splits)

lemma auth_failed_effect:
  "fst (auth_failed s) = Inl (Error ''Authentication failed'')"
  "trace (snd (auth_failed s)) = trace s"
  "controllers (snd (auth_failed s)) = controllers s"
  "calls (snd (auth_failed s)) = calls s"
  "now (snd (auth_failed s)) = now s"
  "location_href (snd (auth_failed s)) = ''/login''"
  "cookies (snd (auth_failed s)) ''accessToken'' = None"
  "cookies (snd (auth_failed s)) ''refreshToken'' = None"
  "cookies (snd (auth_failed s)) ''userData'' = None"
  "cookies (snd (auth_failed s)) ''loginTime'' = None"
  by (simp_all add: auth_failed_def clear_session_def Cookies_remove_def)

lemma attempt_effect:
  "\<exists>rest. trace (snd (attempt e endpoint options s))
            = trace s @ Fetch (nth_request e endpoint options s 0) # rest"
  "controllers s < controllers (snd (attempt e endpoint options s))"
proof -
  obtain x s1 where f1: "fetch e (nth_request e endpoint options s 0)
             \<lparr>cid = controllers s, deadline = now s + REQUEST_TIMEOUT\<rparr>
             (s\<lparr>controllers := Suc (controllers s)\<rparr>) = (x, s1)"
    by force
  note e1 = fetch_effect[OF f1]
  obtain y s2 where f2: "refreshToken e s1 = (y, s2)"
    by force
  note e2 = refreshToken_effect[OF f2]
  show "\<exists>rest. trace (snd (attempt e endpoint options s))
            = trace s @ Fetch (nth_request e endpoint options s 0) # rest"
    using e1 e2 f1 f2
    by (auto simp: attempt_unfold auth_failed_effect split: sum.splits prod.splits
             dest!: fetch_effect(1))
  show "controllers s < controllers (snd (attempt e endpoint options s))"
    using e1 e2 f1 f2
    by (auto simp: attempt_unfold auth_failed_effect split: sum.splits prod.splits
             dest!: fetch_effect(2))
qed

lemma fetchWithAuth_extends:
  "\<exists>evs. trace (snd (fetchWithAuth e endpoint options retries rt s)) = trace s @ evs"
proof (induction e endpoint options retries rt s rule: fetchWithAuth.induct)
  case (1 e endpoint options retries responseType s)
  obtain rest where a: "trace (snd (attempt e endpoint options s))
            = trace s @ Fetch (nth_request e endpoint options s 0) # rest"
    using attempt_effect(1) by blast
  show ?case
  proof (cases "fst (attempt e endpoint options s)")
    case (Inl err)
    then show ?thesis using a by (subst fetchWithAuth.simps) (simp add: Let_def)
  next
    case (Inr r)
    show ?thesis
    proof (cases "retriable r retries")
      case True
      from "1.IH"[OF refl Inr True]
      obtain evs where "trace (snd (fetchWithAuth e endpoint options (retries + 1) responseType
                 (sleep (backoffTime retries) (snd (attempt e endpoint options s)))))
           = trace (sleep (backoffTime retries) (snd (attempt e endpoint options s))) @ evs"
        by blast
      then show ?thesis using a Inr True
        by (subst fetchWithAuth.simps) (simp add: Let_def sleep_simps)
    next
      case False
      then show ?thesis using a Inr by (subst fetchWithAuth.simps) (simp add: Let_def)
    qed
  qed
qed

lemma fetchWithAuth_first_request:
  "\<exists>rest. trace (snd (fetchWithAuth e endpoint options retries rt s))
            = trace s @ Fetch (nth_request e endpoint options s 0) # rest"
proof -
  obtain rest where a: "trace (snd (attempt e endpoint options s))
            = trace s @ Fetch (nth_request e endpoint options s 0) # rest"
    using attempt_effect(1) by blast
  obtain evs where b: "trace (snd (fetchWithAuth e endpoint options (retries + 1) rt
                 (sleep (backoffTime retries) (snd (attempt e endpoint options s)))))
           = trace (sleep (backoffTime retries) (snd (attempt e endpoint options s))) @ evs"
    using fetchWithAuth_extends by blast
  show ?thesis
    using a b
    by (subst fetchWithAuth.simps) (auto simp: Let_def sleep_simps split: sum.splits)
qed


lemma reissued_request_simps:
  "url (reissued_request e endpoint options s newToken) = url (nth_request e endpoint options s 0)"
  "req_method (reissued_request e endpoint options s newToken)
     = req_method (nth_request e endpoint options s 0)"
  "req_body (reissued_request e endpoint options s newToken)
     = req_body (nth_request e endpoint options s 0)"
  "signal (reissued_request e endpoint options s newToken) = controllers s"
  "signal (nth_request e endpoint options s i) = controllers s + i"
  "req_headers (reissued_request e endpoint options s newToken) = refreshedHeaders newToken options"
  by (simp_all add: reissued_request_def nth_request_def api_request_def)

lemma refreshedHeaders_bearer:
  "isFormData options \<or> newToken \<noteq> [] \<Longrightarrow>
     refreshedHeaders newToken options ''Authorization'' = Some (''Bearer '' @ newToken)"
  by (auto simp: refreshedHeaders_def buildHeaders_def truthy_def Let_def)

text \<open>
  Claim C5. Let the first response of a call be a \<open>401\<close>. Then \<open>refreshToken\<close> is
  run once, from the state in which that response arrived. If it yields a new token,
  the same call (same URL, method and body) is sent once more with the headers rebuilt
  from the new token; the trace of the attempt is the first request, at most one refresh
  request, and the re-issued request, whatever becomes of the latter; and if the
  re-issued response is a \<open>401\<close> again the call fails with that response and in the
  state in which it arrived, so no second refresh and no retry took place, whatever the
  retry counter. If the refresh fails, the call fails with \<open>Authentication failed\<close>,
  the four session cookies are removed, the location is \<open>/login\<close>, and nothing was sent
  after the refresh.
\<close>

theorem C5_one_refresh_one_reissue:
  assumes "result (nth_reply e endpoint options s 0) = Responded r1"
    and "latency (nth_reply e endpoint options s 0) < REQUEST_TIMEOUT"
    and "status r1 = 401"
  shows
    "(\<forall>newToken s2 r2 s3.
        refreshToken e (after_first e endpoint options s) = (Inr newToken, s2) \<and>
        fetch e (reissued_request e endpoint options s newToken)
          \<lparr>cid = controllers s, deadline = now s + REQUEST_TIMEOUT\<rparr> s2 = (Inr r2, s3) \<longrightarrow>
          attempt e endpoint options s = (Inr r2, s3) \<and>
          (\<exists>evs. length evs \<le> 1 \<and>
             trace s3 = trace s @ Fetch (nth_request e endpoint options s 0) # evs @
                          [Fetch (reissued_request e endpoint options s newToken)]) \<and>
          url (reissued_request e endpoint options s newToken)
            = url (nth_request e endpoint options s 0) \<and>
          req_method (reissued_request e endpoint options s newToken)
            = req_method (nth_request e endpoint options s 0) \<and>
          req_body (reissued_request e endpoint options s newToken)
            = req_body (nth_request e endpoint options s 0) \<and>
          req_headers (reissued_request e endpoint options s newToken)
            = refreshedHeaders newToken options \<and>
          (isFormData options \<or> newToken \<noteq> [] \<longrightarrow>
             req_headers (reissued_request e endpoint options s newToken) ''Authorization''
               = Some (''Bearer '' @ newToken)) \<and>
          (status r2 = 401 \<longrightarrow>
             fetchWithAuth e endpoint options retries rt s
               = (Inl (Error (error_message r2 ''API error: 401'')), s3))) \<and>
     (\<forall>err s2.
        refreshToken e (after_first e endpoint options s) = (Inl err, s2) \<longrightarrow>
          (let R = fetchWithAuth e endpoint options retries rt s
           in fst R = Inl (Error ''Authentication failed'') \<and>
              cookies (snd R) ''accessToken'' = None \<and>
              cookies (snd R) ''refreshToken'' = None \<and>
              cookies (snd R) ''userData'' = None \<and>
              cookies (snd R) ''loginTime'' = None \<and>
              location_href (snd R) = ''/login'' \<and>
              trace (snd R) = trace s2 \<and> calls (snd R) = calls s2 \<and> now (snd R) = now s2 \<and>
              (\<exists>evs. length evs \<le> 1 \<and>
                 trace s2 = trace s @ Fetch (nth_request e endpoint options s 0) # evs))) \<and>
     (\<forall>newToken s2.
        refreshToken e (after_first e endpoint options s) = (Inr newToken, s2) \<longrightarrow>
          (\<exists>evs. length evs \<le> 1 \<and>
             trace (snd (attempt e endpoint options s))
               = trace s @ Fetch (nth_request e endpoint options s 0) # evs @
                   [Fetch (reissued_request e endpoint options s newToken)]))"
proof (intro conjI allI impI)
  fix newToken s2 r2 s3
  assume h: "refreshToken e (after_first e endpoint options s) = (Inr newToken, s2) \<and>
        fetch e (reissued_request e endpoint options s newToken)
          \<lparr>cid = controllers s, deadline = now s + REQUEST_TIMEOUT\<rparr> s2 = (Inr r2, s3)"
  show a: "attempt e endpoint options s = (Inr r2, s3)"
    using h by (simp add: attempt_401[OF assms])
  obtain evs where evs: "trace s2 = trace (after_first e endpoint options s) @ evs" "length evs \<le> 1"
    using refreshToken_effect(1) h by blast
  have "trace s3 = trace s2 @ [Fetch (reissued_request e endpoint options s newToken)]"
    using h fetch_effect(1) by blast
  then show "\<exists>evs. length evs \<le> 1 \<and>
             trace s3 = trace s @ Fetch (nth_request e endpoint options s 0) # evs @
                          [Fetch (reissued_request e endpoint options s newToken)]"
    using evs by (auto simp: after_first_simps)
  show "url (reissued_request e endpoint options s newToken)
            = url (nth_request e endpoint options s 0)"
       "req_method (reissued_request e endpoint options s newToken)
            = req_method (nth_request e endpoint options s 0)"
       "req_body (reissued_request e endpoint options s newToken)
            = req_body (nth_request e endpoint options s 0)"
       "req_headers (reissued_request e endpoint options s newToken)
            = refreshedHeaders newToken options"
    by (simp_all add: reissued_request_simps)
  show "req_headers (reissued_request e endpoint options s newToken) ''Authorization''
               = Some (''Bearer '' @ newToken)" if "isFormData options \<or> newToken \<noteq> []"
    using that by (simp add: reissued_request_simps refreshedHeaders_bearer)
  show "fetchWithAuth e endpoint options retries rt s
               = (Inl (Error (error_message r2 ''API error: 401'')), s3)" if st: "status r2 = 401"
  proof -
    have "\<not> retriable r2 retries" using st by (simp add: retriable_def)
    then have "fetchWithAuth e endpoint options retries rt s = (deliver rt r2, s3)"
      using a by (intro fetchWithAuth_final)
    moreover have "\<not> ok r2" using st by (simp add: ok_def)
    ultimately show ?thesis
      using st by (simp add: deliver_failure numeral_text)
  qed
next
  fix err s2
  assume h: "refreshToken e (after_first e endpoint options s) = (Inl err, s2)"
  have a: "attempt e endpoint options s = auth_failed s2"
    using h by (simp add: attempt_401[OF assms])
  have f: "fetchWithAuth e endpoint options retries rt s
             = (Inl (Error ''Authentication failed''), snd (auth_failed s2))"
    using fetchWithAuth_thrown[of e endpoint options s "Error ''Authentication failed''"
                                  "snd (auth_failed s2)" retries rt] a
    by (simp add: auth_failed_def outer_catch_def)
  obtain evs where evs: "trace s2 = trace (after_first e endpoint options s) @ evs" "length evs \<le> 1"
    using refreshToken_effect(1) h by blast
  then have "\<exists>evs. length evs \<le> 1 \<and>
                 trace s2 = trace s @ Fetch (nth_request e endpoint options s 0) # evs"
    by (auto simp: after_first_simps)
  then show "let R = fetchWithAuth e endpoint options retries rt s
           in fst R = Inl (Error ''Authentication failed'') \<and>
              cookies (snd R) ''accessToken'' = None \<and>
              cookies (snd R) ''refreshToken'' = None \<and>
              cookies (snd R) ''userData'' = None \<and>
              cookies (snd R) ''loginTime'' = None \<and>
              location_href (snd R) = ''/login'' \<and>
              trace (snd R) = trace s2 \<and> calls (snd R) = calls s2 \<and> now (snd R) = now s2 \<and>
              (\<exists>evs. length evs \<le> 1 \<and>
                 trace s2 = trace s @ Fetch (nth_request e endpoint options s 0) # evs)"
    by (simp add: f Let_def auth_failed_effect)
next
  fix newToken s2
  assume h: "refreshToken e (after_first e endpoint options s) = (Inr newToken, s2)"
  obtain x s3 where f: "fetch e (reissued_request e endpoint options s newToken)
          \<lparr>cid = controllers s, deadline = now s + REQUEST_TIMEOUT\<rparr> s2 = (x, s3)"
    by force
  have "trace (snd (attempt e endpoint options s)) = trace s3"
    using h f by (cases x) (simp_all add: attempt_401[OF assms] auth_failed_effect)
  moreover have "trace s3 = trace s2 @ [Fetch (reissued_request e endpoint options s newToken)]"
    using f fetch_effect(1) by blast
  moreover obtain evs where "trace s2 = trace (after_first e endpoint options s) @ evs"
      "length evs \<le> 1"
    using refreshToken_effect(1) h by blast
  ultimately show "\<exists>evs. length evs \<le> 1 \<and>
             trace (snd (attempt e endpoint options s))
               = trace s @ Fetch (nth_request e endpoint options s 0) # evs @
                   [Fetch (reissued_request e endpoint options s newToken)]"
    by (auto simp: after_first_simps)
qed


lemma scripted_simps:
  "apiBaseUrl (scripted script) = ''https://api''"
  "net (scripted script) i req =
     (case drop i script of
        [] \<Rightarrow> \<lparr>latency = 0, result = NetworkFailure\<rparr>
      | (l, code) # _ \<Rightarrow> \<lparr>latency = l, result = Responded (demo_response code)\<rparr>)"
  "pending (scripted script) s = \<lparr>outcome = Inl TypeError, cookies_after = cookies s, elapsed = 0\<rparr>"
  by (simp_all add: scripted_def)

theorem C5_witness:
  "fst (fetchWithAuth (scripted [(50, 401), (60, 200), (70, 401)]) ''/auth/profile''
          demo_options 0 json_type demo_state)
     = Inl (Error ''API error: 401'') \<and>
   fst (fetchWithAuth (scripted [(50, 401), (60, 403)]) ''/auth/profile''
          demo_options 0 json_type demo_state)
     = Inl (Error ''Authentication failed'') \<and>
   cookies (snd (fetchWithAuth (scripted [(50, 401), (60, 403)]) ''/auth/profile''
          demo_options 0 json_type demo_state)) ''refreshToken'' = None \<and>
   location_href (snd (fetchWithAuth (scripted [(50, 401), (60, 403)]) ''/auth/profile''
          demo_options 0 json_type demo_state)) = ''/login''"
proof -
  let ?e = "scripted [(50, 401), (60, 200), (70, 401)]"
  let ?f = "scripted [(50, 401), (60, 403)]"
  let ?p = "''/auth/profile''"
  let ?s2 = "snd (refreshToken ?e (after_first ?e ?p demo_options demo_state))"
  let ?c = "\<lparr>cid = controllers demo_state, deadline = now demo_state + REQUEST_TIMEOUT\<rparr>"
  let ?s3 = "snd (fetch ?e (reissued_request ?e ?p demo_options demo_state ''new'') ?c ?s2)"
  have rep: "nth_reply ?e ?p demo_options demo_state 0
               = \<lparr>latency = 50, result = Responded (demo_response 401)\<rparr>"
      "nth_reply ?f ?p demo_options demo_state 0
               = \<lparr>latency = 50, result = Responded (demo_response 401)\<rparr>"
    by (simp_all add: nth_reply_def scripted_simps demo_state_simps)
  have hyp: "result (nth_reply ?e ?p demo_options demo_state 0) = Responded (demo_response 401)"
      "latency (nth_reply ?e ?p demo_options demo_state 0) < REQUEST_TIMEOUT"
      "result (nth_reply ?f ?p demo_options demo_state 0) = Responded (demo_response 401)"
      "latency (nth_reply ?f ?p demo_options demo_state 0) < REQUEST_TIMEOUT"
      "status (demo_response 401) = 401"
    by (simp_all add: rep REQUEST_TIMEOUT_def demo_response_def)
  have r1: "refreshToken ?e (after_first ?e ?p demo_options demo_state) = (Inr ''new'', ?s2)"
    by (simp add: prod_eq_iff refresh_defs after_first_simps rep demo_state_simps scripted_simps demo_cookies_def
                  demo_response_def truthy_def
                  REQUEST_TIMEOUT_def refresh_request_def ok_def)
  have s2: "calls ?s2 = 2" "now ?s2 = 110"
    by (simp_all add: refresh_defs after_first_simps rep demo_state_simps scripted_simps demo_cookies_def
                  demo_response_def truthy_def
                  REQUEST_TIMEOUT_def refresh_request_def ok_def)
  have r2: "fetch ?e (reissued_request ?e ?p demo_options demo_state ''new'') ?c ?s2
              = (Inr (demo_response 401), ?s3)"
    by (simp add: prod_eq_iff fetch_def fetch_send_def fetch_settle_def s2 Let_def
                  demo_state_simps REQUEST_TIMEOUT_def scripted_simps)
  have r3: "fst (refreshToken ?f (after_first ?f ?p demo_options demo_state))
              = Inl (Error ''HTTP error 403'')"
    by (simp add: refresh_defs after_first_simps rep demo_state_simps scripted_simps demo_cookies_def
                  demo_response_def truthy_def
                  REQUEST_TIMEOUT_def refresh_request_def ok_def error_message_def numeral_text)
  have r4: "refreshToken ?f (after_first ?f ?p demo_options demo_state)
              = (Inl (Error ''HTTP error 403''),
                 snd (refreshToken ?f (after_first ?f ?p demo_options demo_state)))"
    using r3 by (simp add: prod_eq_iff)
  show ?thesis
    using C5_one_refresh_one_reissue[OF hyp(1) hyp(2) hyp(5), of 0 json_type]
          C5_one_refresh_one_reissue[OF hyp(3) hyp(4) hyp(5), of 0 json_type]
          r1 r2 r4
    by (auto simp: Let_def error_message_def demo_response_def truthy_def)
qed


lemma attempt_abort_iff:
  "fst (attempt e endpoint options s) = Inl AbortError \<longleftrightarrow>
     REQUEST_TIMEOUT \<le> latency (nth_reply e endpoint options s 0)"
  by (auto simp: attempt_unfold first_fetch auth_failed_def
           split: net_result.splits sum.splits prod.splits)

text \<open>
  Claim C10. After a \<open>401\<close> and a successful refresh the re-issued request carries
  the signal of the first request, whose timer was set to \<open>now + 30000\<close> when the call
  began: the attempt can only end with a response before that deadline, and it fails
  when the re-issued reply would arrive at the deadline or later, however little of the
  time the re-issued request itself took. A retry after a server error is a new call:
  it creates a later controller, its first request carries that new signal, and its
  first request is aborted exactly when its own reply takes 30000 ms or more.
\<close>

theorem C10_reissue_shares_window_retry_gets_new_one:
  "(result (nth_reply e endpoint options s 0) = Responded r1 \<and>
    latency (nth_reply e endpoint options s 0) < REQUEST_TIMEOUT \<and> status r1 = 401 \<longrightarrow>
      (\<forall>newToken s2.
         refreshToken e (after_first e endpoint options s) = (Inr newToken, s2) \<longrightarrow>
           signal (nth_request e endpoint options s 0) = controllers s \<and>
           signal (reissued_request e endpoint options s newToken) = controllers s \<and>
           attempt e endpoint options s =
             (case fetch e (reissued_request e endpoint options s newToken)
                     \<lparr>cid = controllers s, deadline = now s + REQUEST_TIMEOUT\<rparr> s2 of
                (Inl err, s3) \<Rightarrow> auth_failed s3
              | (Inr r2, s3) \<Rightarrow> (Inr r2, s3)) \<and>
           (\<forall>r2 s3. attempt e endpoint options s = (Inr r2, s3)
              \<longrightarrow> now s3 < now s + REQUEST_TIMEOUT) \<and>
           (now s + REQUEST_TIMEOUT
              \<le> now s2 + latency (net e (calls s2)
                                   (reissued_request e endpoint options s newToken)) \<longrightarrow>
              fst (attempt e endpoint options s) = Inl (Error ''Authentication failed'')))) \<and>
   (\<forall>resp s1.
      attempt e endpoint options s = (Inr resp, s1) \<and> 500 \<le> status resp \<and> retries < 2 \<longrightarrow>
        (let s' = sleep (backoffTime retries) s1
         in fetchWithAuth e endpoint options retries rt s
              = fetchWithAuth e endpoint options (retries + 1) rt s' \<and>
            controllers s < controllers s' \<and>
            signal (nth_request e endpoint options s' 0) = controllers s' \<and>
            (\<exists>rest. trace (snd (fetchWithAuth e endpoint options (retries + 1) rt s'))
                      = trace s' @ Fetch (nth_request e endpoint options s' 0) # rest) \<and>
            (fst (attempt e endpoint options s') = Inl AbortError \<longleftrightarrow>
               REQUEST_TIMEOUT \<le> latency (nth_reply e endpoint options s' 0))))"
proof (intro conjI allI impI)
  fix newToken s2
  assume first: "result (nth_reply e endpoint options s 0) = Responded r1 \<and>
    latency (nth_reply e endpoint options s 0) < REQUEST_TIMEOUT \<and> status r1 = 401"
    and rf: "refreshToken e (after_first e endpoint options s) = (Inr newToken, s2)"
  let ?c = "\<lparr>cid = controllers s, deadline = now s + REQUEST_TIMEOUT\<rparr>"
  let ?req = "reissued_request e endpoint options s newToken"
  show "signal (nth_request e endpoint options s 0) = controllers s"
       "signal ?req = controllers s"
    by (simp_all add: reissued_request_simps)
  show a: "attempt e endpoint options s =
             (case fetch e ?req ?c s2 of
                (Inl err, s3) \<Rightarrow> auth_failed s3
              | (Inr r2, s3) \<Rightarrow> (Inr r2, s3))"
    using first rf by (simp add: attempt_401[of e endpoint options s r1])
  show "now s3 < now s + REQUEST_TIMEOUT" if "attempt e endpoint options s = (Inr r2, s3)"
    for r2 s3
  proof -
    have "fetch e ?req ?c s2 = (Inr r2, s3)"
      using that a by (auto simp: auth_failed_def split: prod.splits sum.splits)
    from fetch_in_time(1)[OF this] show ?thesis by simp
  qed
  show "fst (attempt e endpoint options s) = Inl (Error ''Authentication failed'')"
    if "now s + REQUEST_TIMEOUT \<le> now s2 + latency (net e (calls s2) ?req)"
  proof -
    have "fst (fetch e ?req ?c s2) = Inl AbortError"
      using that by (intro fetch_late) simp
    then show ?thesis
      using a by (auto simp: auth_failed_def split: prod.splits sum.splits)
  qed
next
  fix resp s1
  assume h: "attempt e endpoint options s = (Inr resp, s1) \<and> 500 \<le> status resp \<and> retries < 2"
  have c: "controllers s < controllers s1"
    using attempt_effect(2)[of s e endpoint options] h by simp
  show "let s' = sleep (backoffTime retries) s1
         in fetchWithAuth e endpoint options retries rt s
              = fetchWithAuth e endpoint options (retries + 1) rt s' \<and>
            controllers s < controllers s' \<and>
            signal (nth_request e endpoint options s' 0) = controllers s' \<and>
            (\<exists>rest. trace (snd (fetchWithAuth e endpoint options (retries + 1) rt s'))
                      = trace s' @ Fetch (nth_request e endpoint options s' 0) # rest) \<and>
            (fst (attempt e endpoint options s') = Inl AbortError \<longleftrightarrow>
               REQUEST_TIMEOUT \<le> latency (nth_reply e endpoint options s' 0))"
    using h c fetchWithAuth_retry[of e endpoint options s resp s1 retries rt]
      fetchWithAuth_first_request[of e endpoint options "retries + 1" rt
         "sleep (backoffTime retries) s1"]
      attempt_abort_iff[of e endpoint options "sleep (backoffTime retries) s1"]
    by (simp add: Let_def sleep_simps reissued_request_simps)
qed

theorem C10_witness:
  "fst (attempt (scripted [(12000, 401), (9000, 200), (9000, 200)]) ''/auth/profile''
          demo_options demo_state) = Inl (Error ''Authentication failed'') \<and>
   fst (attempt (scripted [(12000, 500), (29000, 200)]) ''/auth/profile'' demo_options
          (sleep 1000 (after_first (scripted [(12000, 500), (29000, 200)]) ''/auth/profile''
                         demo_options demo_state))) \<noteq> Inl AbortError"
proof -
  let ?e = "scripted [(12000, 401), (9000, 200), (9000, 200)]"
  let ?f = "scripted [(12000, 500), (29000, 200)]"
  let ?p = "''/auth/profile''"
  let ?s2 = "snd (refreshToken ?e (after_first ?e ?p demo_options demo_state))"
  have rep: "nth_reply ?e ?p demo_options demo_state 0
               = \<lparr>latency = 12000, result = Responded (demo_response 401)\<rparr>"
      "nth_reply ?f ?p demo_options demo_state 0
               = \<lparr>latency = 12000, result = Responded (demo_response 500)\<rparr>"
      "nth_reply ?f ?p demo_options demo_state (Suc 0)
               = \<lparr>latency = 29000, result = Responded (demo_response 200)\<rparr>"
    by (simp_all add: nth_reply_def scripted_simps demo_state_simps)
  have r1: "refreshToken ?e (after_first ?e ?p demo_options demo_state) = (Inr ''new'', ?s2)"
    by (simp add: prod_eq_iff refresh_defs after_first_simps rep demo_state_simps
                  scripted_simps demo_cookies_def demo_response_def truthy_def
                  REQUEST_TIMEOUT_def refresh_request_def ok_def)
  have s2: "calls ?s2 = 2" "now ?s2 = 21000"
    by (simp_all add: refresh_defs after_first_simps rep demo_state_simps
                  scripted_simps demo_cookies_def demo_response_def truthy_def
                  REQUEST_TIMEOUT_def refresh_request_def ok_def)
  have a: "attempt ?f ?p demo_options demo_state
             = (Inr (demo_response 500), after_first ?f ?p demo_options demo_state)"
    by (intro attempt_plain) (simp_all add: rep REQUEST_TIMEOUT_def demo_response_def)
  have pre: "result (nth_reply ?e ?p demo_options demo_state 0) = Responded (demo_response 401) \<and>
      latency (nth_reply ?e ?p demo_options demo_state 0) < REQUEST_TIMEOUT \<and>
      status (demo_response 401) = 401"
    by (simp add: rep REQUEST_TIMEOUT_def demo_response_def)
  have late: "now demo_state + REQUEST_TIMEOUT
                \<le> now ?s2 + latency (net ?e (calls ?s2)
                                       (reissued_request ?e ?p demo_options demo_state ''new''))"
    by (simp add: s2 scripted_simps demo_state_simps REQUEST_TIMEOUT_def)
  have one: "fst (attempt ?e ?p demo_options demo_state) = Inl (Error ''Authentication failed'')"
    using C10_reissue_shares_window_retry_gets_new_one
            [of ?e ?p demo_options demo_state "demo_response 401" 0 json_type]
          pre r1 late
    by blast
  have pre2: "attempt ?f ?p demo_options demo_state
                = (Inr (demo_response 500), after_first ?f ?p demo_options demo_state) \<and>
              500 \<le> status (demo_response 500) \<and> (0::nat) < 2"
    using a by (simp add: demo_response_def)
  have "let s' = sleep (backoffTime 0) (after_first ?f ?p demo_options demo_state)
        in fst (attempt ?f ?p demo_options s') = Inl AbortError \<longleftrightarrow>
             REQUEST_TIMEOUT \<le> latency (nth_reply ?f ?p demo_options s' 0)"
    using C10_reissue_shares_window_retry_gets_new_one
            [of ?f ?p demo_options demo_state "demo_response 500" 0 json_type]
          pre2
    unfolding Let_def by blast
  then have two: "fst (attempt ?f ?p demo_options
                    (sleep 1000 (after_first ?f ?p demo_options demo_state))) \<noteq> Inl AbortError"
    by (simp add: Let_def backoff_values next_attempt rep REQUEST_TIMEOUT_def)
  show ?thesis
    using one two by simp
qed

section \<open>Properties of the request headers\<close>

lemma merge_all_add:
  "foldl (\<lambda>acc (key, v). acc(key \<mapsto> v)) h kvs
     = h ++ foldl (\<lambda>acc (key, v). acc(key \<mapsto> v)) Map.empty kvs"
  by (induction kvs rule: rev_induct)
     (auto simp: case_prod_unfold map_add_def fun_eq_iff split: option.splits)

lemma merge_defined_add: "merge_defined h kvs = h ++ merge_defined Map.empty kvs"
  unfolding merge_defined_def
  by (induction kvs rule: rev_induct)
     (auto simp: case_prod_unfold map_add_def fun_eq_iff split: option.splits)

lemma merge_all_absent:
  "k \<notin> fst ` set kvs \<Longrightarrow> foldl (\<lambda>acc (key, v). acc(key \<mapsto> v)) h kvs k = h k"
  by (induction kvs rule: rev_induct) (auto simp: case_prod_unfold)

text \<open>
  What the caller supplied under a name, in a record or an array of pairs, is an entry
  of exactly that name with a defined value.
\<close>

lemma merge_defined_exact:
  "merge_defined Map.empty kvs k = None \<longleftrightarrow> (\<forall>v. (k, Some v) \<notin> set kvs)"
  "merge_defined Map.empty kvs k = Some v \<Longrightarrow> (k, Some v) \<in> set kvs"
  unfolding merge_defined_def
  by (induction kvs rule: rev_induct)
     (auto simp: case_prod_unfold split: option.splits if_splits)

lemma supplied_exact:
  "supplied None k = None"
  "supplied (Some (HeadersRecord kvs)) k = None \<longleftrightarrow> (\<forall>v. (k, Some v) \<notin> set kvs)"
  "supplied (Some (HeadersArray kvs)) k = None \<longleftrightarrow> (\<forall>v. (k, Some v) \<notin> set kvs)"
  "supplied (Some (HeadersRecord kvs)) k = Some v \<Longrightarrow> (k, Some v) \<in> set kvs"
  "supplied (Some (HeadersArray kvs)) k = Some v \<Longrightarrow> (k, Some v) \<in> set kvs"
  by (simp_all add: supplied_def merge_defined_exact)

text \<open>No name that \<open>forEach\<close> hands out has a capital letter.\<close>

lemma lower_char_not_capital: "lower_char c \<noteq> CHR ''A''" "lower_char c \<noteq> CHR ''C''"
  by (auto simp: lower_char_def split: option.splits if_splits)

lemma lowercase_not_capitalised:
  "lowercase name \<noteq> ''Authorization''" "lowercase name \<noteq> ''Content-Type''"
  using lower_char_not_capital by (cases name; simp add: lowercase_def)+

lemma Headers_forEach_names:
  "(k, v) \<in> set (Headers_forEach kvs) \<Longrightarrow> \<exists>name. k = lowercase name"
  by (force simp: Headers_forEach_def Let_def split: if_splits)

lemma Headers_forEach_no_capitalised:
  "''Authorization'' \<notin> fst ` set (Headers_forEach kvs)"
  "''Content-Type'' \<notin> fst ` set (Headers_forEach kvs)"
  by (auto dest!: Headers_forEach_names simp: lowercase_not_capitalised[symmetric])

text \<open>
  Two \<open>Headers\<close> objects as \<open>forEach\<close> goes through them: names in lower case and
  sorted, values of one name joined, those of \<open>set-cookie\<close> kept apart.
\<close>

lemma Headers_forEach_examples:
  "Headers_forEach [(''Content-Type'', ''text/csv''), (''Authorization'', ''Basic abc'')]
     = [(''authorization'', ''Basic abc''), (''content-type'', ''text/csv'')]"
  "Headers_forEach [(''Accept'', ''a''), (''Set-Cookie'', ''x''), (''accept'', ''b''),
                    (''set-cookie'', ''y'')]
     = [(''accept'', ''a, b''), (''set-cookie'', ''x''), (''set-cookie'', ''y'')]"
  by (simp_all add: Headers_forEach_def lowercase_def lower_char_def Let_def)

lemma supplied_Headers:
  "supplied (Some (Headers kvs)) ''Authorization'' = None"
  "supplied (Some (Headers kvs)) ''Content-Type'' = None"
  by (simp_all add: supplied_def merge_all_absent Headers_forEach_no_capitalised)

lemma buildHeaders_lookup:
  "buildHeaders token existingHeaders k =
     (if k = ''Authorization'' \<and> truthy token \<noteq> None
      then Some (''Bearer '' @ the (truthy token))
      else (case supplied existingHeaders k of
              Some v \<Rightarrow> Some v
            | None \<Rightarrow> if k = ''Content-Type'' then Some ''application/json'' else None))"
proof -
  have "(case existingHeaders of
               None \<Rightarrow> [''Content-Type'' \<mapsto> ''application/json'']
             | Some (Headers kvs) \<Rightarrow>
                 foldl (\<lambda>acc (key, v). acc(key \<mapsto> v)) [''Content-Type'' \<mapsto> ''application/json'']
                   (Headers_forEach kvs)
             | Some (HeadersArray kvs) \<Rightarrow> merge_defined [''Content-Type'' \<mapsto> ''application/json''] kvs
             | Some (HeadersRecord kvs) \<Rightarrow> merge_defined [''Content-Type'' \<mapsto> ''application/json''] kvs)
        = [''Content-Type'' \<mapsto> ''application/json''] ++ supplied existingHeaders"
    using merge_all_add[of "[''Content-Type'' \<mapsto> ''application/json'']"]
          merge_defined_add[of "[''Content-Type'' \<mapsto> ''application/json'']"]
    by (simp add: supplied_def split: option.splits HeadersInit.splits)
  then show ?thesis
    by (auto simp: buildHeaders_def Let_def map_add_def split: option.splits)
qed

text \<open>
  Claim C8, as amended. It is about the headers object that \<open>fetchWithAuth\<close> hands to
  \<open>fetch\<close>, whose names are told apart exactly. The first request of every call is the
  one named here. With a \<open>FormData\<close> body neither it nor the request re-issued after a
  refresh has a \<open>Content-Type\<close> entry. With any other body the \<open>Content-Type\<close> entry
  of both is \<open>application/json\<close> when the caller passed no entry of exactly that name,
  and the caller's value when the caller passed one, in a record or an array of pairs,
  which \<open>buildHeaders\<close> lays over the default. A \<open>Headers\<close> object of the caller never
  has an entry of that name, its names being in lower case: then the entry is
  \<open>application/json\<close>, whatever the object holds.
\<close>

theorem C8_content_type_header:
  "(\<exists>rest. trace (snd (fetchWithAuth e endpoint options retries rt s))
             = trace s @ Fetch (nth_request e endpoint options s 0) # rest) \<and>
   (isFormData options \<longrightarrow>
      req_headers (nth_request e endpoint options s 0) ''Content-Type'' = None \<and>
      (\<forall>newToken. req_headers (reissued_request e endpoint options s newToken) ''Content-Type''
                     = None)) \<and>
   (\<not> isFormData options \<and> supplied (headers options) ''Content-Type'' = None \<longrightarrow>
      req_headers (nth_request e endpoint options s 0) ''Content-Type''
        = Some ''application/json'' \<and>
      (\<forall>newToken. req_headers (reissued_request e endpoint options s newToken) ''Content-Type''
                     = Some ''application/json'')) \<and>
   (\<forall>v. \<not> isFormData options \<and> supplied (headers options) ''Content-Type'' = Some v \<longrightarrow>
      req_headers (nth_request e endpoint options s 0) ''Content-Type'' = Some v \<and>
      (\<forall>newToken. req_headers (reissued_request e endpoint options s newToken) ''Content-Type''
                     = Some v)) \<and>
   (\<forall>kvs. \<not> isFormData options \<and> headers options = Some (Headers kvs) \<longrightarrow>
      req_headers (nth_request e endpoint options s 0) ''Content-Type''
        = Some ''application/json'' \<and>
      (\<forall>newToken. req_headers (reissued_request e endpoint options s newToken) ''Content-Type''
                     = Some ''application/json''))"
proof -
  have object: "supplied (headers options) ''Content-Type'' = None"
    if "headers options = Some (Headers kvs)" for kvs
    using that by (simp add: supplied_Headers)
  show ?thesis
    using fetchWithAuth_first_request[of e endpoint options retries rt s] object
    by (auto simp: nth_request_def reissued_request_def api_request_def request_headers_def
                   refreshedHeaders_def buildHeaders_lookup)
qed

text \<open>
  Claim C7, as amended. It is about the headers object that \<open>fetchWithAuth\<close> hands to
  \<open>fetch\<close>, whose names are told apart exactly. When a non-empty access token is
  stored, the first request of a call carries \<open>Authorization: Bearer <token>\<close>, with a
  JSON body and with a \<open>FormData\<close> body alike, and the request re-issued after a
  refresh carries the new token in the same way. When none is stored and the body is
  not \<open>FormData\<close>, the client adds no \<open>Authorization\<close> entry: the request has the
  caller's own entry of exactly that name, if the caller passed one in a record or an
  array of pairs, and none otherwise; a \<open>Headers\<close> object of the caller never has an
  entry of that name, its names being in lower case.
\<close>

theorem C7_authorization_header:
  "(\<exists>rest. trace (snd (fetchWithAuth e endpoint options retries rt s))
             = trace s @ Fetch (nth_request e endpoint options s 0) # rest) \<and>
   (\<forall>t. truthy (cookies s ''accessToken'') = Some t \<longrightarrow>
      req_headers (nth_request e endpoint options s 0) ''Authorization''
        = Some (''Bearer '' @ t)) \<and>
   (truthy (cookies s ''accessToken'') = None \<and> \<not> isFormData options \<longrightarrow>
      req_headers (nth_request e endpoint options s 0) ''Authorization''
        = supplied (headers options) ''Authorization'') \<and>
   (\<forall>newToken. isFormData options \<or> newToken \<noteq> [] \<longrightarrow>
      req_headers (reissued_request e endpoint options s newToken) ''Authorization''
        = Some (''Bearer '' @ newToken)) \<and>
   (\<forall>kvs. truthy (cookies s ''accessToken'') = None \<and> \<not> isFormData options \<and>
          headers options = Some (Headers kvs) \<longrightarrow>
      req_headers (nth_request e endpoint options s 0) ''Authorization'' = None)"
proof -
  have object: "supplied (headers options) ''Authorization'' = None"
    if "headers options = Some (Headers kvs)" for kvs
    using that by (simp add: supplied_Headers)
  show ?thesis
    using fetchWithAuth_first_request[of e endpoint options retries rt s] object
    by (auto simp: nth_request_def api_request_def request_headers_def reissued_request_simps
                  buildHeaders_lookup refreshedHeaders_bearer truthy_def
             split: option.splits if_splits)
qed

lemma demo_isFormData: "isFormData demo_upload" "\<not> isFormData demo_options"
    "\<not> isFormData demo_text_options" "\<not> isFormData demo_object_options"
  by (simp_all add: isFormData_def demo_upload_def demo_options_def demo_text_options_def
                    demo_object_options_def)

lemma logged_out_simps:
  "cookies logged_out = Map.empty" "refreshInProgress logged_out = None"
  "promises logged_out = 0" "now logged_out = 0" "controllers logged_out = 0"
  "calls logged_out = 0" "trace logged_out = []"
  by (simp_all add: logged_out_def demo_state_def)

text \<open>
  Claim C8 as stated fails: a call with a text body whose caller passes
  \<open>Content-Type: text/csv\<close> sends that value, not \<open>application/json\<close>.
\<close>

theorem C8_counterexample:
  "\<not> isFormData demo_text_options \<and>
   trace (snd (fetchWithAuth (scripted [(40, 200)]) ''/organization/tests/global''
                 demo_text_options 0 json_type demo_state))
     = [Fetch (nth_request (scripted [(40, 200)]) ''/organization/tests/global''
                 demo_text_options demo_state 0)] \<and>
   req_headers (nth_request (scripted [(40, 200)]) ''/organization/tests/global''
                  demo_text_options demo_state 0) ''Content-Type'' = Some ''text/csv''"
proof -
  let ?e = "scripted [(40, 200)]"
  let ?p = "''/organization/tests/global''"
  have rep: "nth_reply ?e ?p demo_text_options demo_state 0
               = \<lparr>latency = 40, result = Responded (demo_response 200)\<rparr>"
    by (simp add: nth_reply_def scripted_simps demo_state_simps)
  have a: "attempt ?e ?p demo_text_options demo_state
             = (Inr (demo_response 200), after_first ?e ?p demo_text_options demo_state)"
    by (intro attempt_plain) (simp_all add: rep REQUEST_TIMEOUT_def demo_response_def)
  have "fetchWithAuth ?e ?p demo_text_options 0 json_type demo_state
          = (deliver json_type (demo_response 200),
             after_first ?e ?p demo_text_options demo_state)"
    using a by (intro fetchWithAuth_final not_retriable_client) (simp_all add: demo_response_def)
  then show ?thesis
    by (simp add: after_first_simps demo_state_simps demo_isFormData nth_request_def
                  api_request_def request_headers_def buildHeaders_def merge_defined_def
                  demo_text_options_def isFormData_def truthy_def demo_cookies_def)
qed

text \<open>
  Claim C7 as stated fails twice when no access token is stored: an upload
  (\<open>FormData\<close> body) is sent with an \<open>Authorization\<close> entry whose value is the empty
  string, and a call whose caller passes an \<open>Authorization\<close> entry is sent with it.
\<close>

theorem C7_counterexample:
  "isFormData demo_upload \<and> cookies logged_out ''accessToken'' = None \<and>
   trace (snd (fetchWithAuth (scripted [(40, 200)]) ''/reporting-doctor/upload-report''
                 demo_upload 0 json_type logged_out))
     = [Fetch (nth_request (scripted [(40, 200)]) ''/reporting-doctor/upload-report''
                 demo_upload logged_out 0)] \<and>
   req_headers (nth_request (scripted [(40, 200)]) ''/reporting-doctor/upload-report''
                  demo_upload logged_out 0) ''Authorization'' = Some '''' \<and>
   \<not> isFormData demo_text_options \<and>
   trace (snd (fetchWithAuth (scripted [(40, 200)]) ''/organization/tests/global''
                 demo_text_options 0 json_type logged_out))
     = [Fetch (nth_request (scripted [(40, 200)]) ''/organization/tests/global''
                 demo_text_options logged_out 0)] \<and>
   req_headers (nth_request (scripted [(40, 200)]) ''/organization/tests/global''
                  demo_text_options logged_out 0) ''Authorization'' = Some ''Basic abc''"
proof -
  let ?e = "scripted [(40, 200)]"
  have run: "fetchWithAuth ?e p opts 0 json_type logged_out
          = (deliver json_type (demo_response 200), after_first ?e p opts logged_out)" for p opts
  proof -
    have rep: "nth_reply ?e p opts logged_out 0
               = \<lparr>latency = 40, result = Responded (demo_response 200)\<rparr>"
      by (simp add: nth_reply_def scripted_simps logged_out_simps)
    have a: "attempt ?e p opts logged_out
             = (Inr (demo_response 200), after_first ?e p opts logged_out)"
      by (intro attempt_plain) (simp_all add: rep REQUEST_TIMEOUT_def demo_response_def)
    show ?thesis
      using a by (intro fetchWithAuth_final not_retriable_client) (simp_all add: demo_response_def)
  qed
  show ?thesis
    by (simp add: run after_first_simps logged_out_simps demo_isFormData nth_request_def
                  api_request_def request_headers_def buildHeaders_def merge_defined_def
                  demo_text_options_def demo_upload_def isFormData_def truthy_def)
qed


lemma demo_supplied:
  "supplied (headers demo_options) k = None"
  "supplied (headers demo_text_options) ''Content-Type'' = Some ''text/csv''"
  "supplied (headers demo_text_options) ''Authorization'' = Some ''Basic abc''"
  by (simp_all add: supplied_def demo_options_def demo_text_options_def merge_defined_def)

lemma demo_object_headers:
  "headers demo_object_options
     = Some (Headers [(''Content-Type'', ''text/csv''), (''Authorization'', ''Basic abc'')])"
  by (simp add: demo_object_options_def)

text \<open>
  The entries of a \<open>Headers\<close> object of the caller stand in the record under their
  lower-case names, beside the default \<open>Content-Type\<close>.
\<close>

lemma demo_object_request:
  "req_headers (nth_request e endpoint demo_object_options logged_out 0) ''Content-Type''
     = Some ''application/json''"
  "req_headers (nth_request e endpoint demo_object_options logged_out 0) ''content-type''
     = Some ''text/csv''"
  "req_headers (nth_request e endpoint demo_object_options logged_out 0) ''Authorization''
     = None"
  "req_headers (nth_request e endpoint demo_object_options logged_out 0) ''authorization''
     = Some ''Basic abc''"
  by (simp_all add: nth_request_def api_request_def request_headers_def demo_isFormData
                    buildHeaders_lookup supplied_def demo_object_headers
                    Headers_forEach_examples logged_out_simps truthy_def)

lemma demo_tokens:
  "truthy (cookies demo_state ''accessToken'') = Some ''old''"
  "truthy (cookies logged_out ''accessToken'') = None"
  by (simp_all add: demo_state_simps logged_out_simps demo_cookies_def truthy_def)

theorem C8_witness:
  "req_headers (nth_request (scripted []) ''/branch-templates/upload/7'' demo_upload
                  demo_state 0) ''Content-Type'' = None \<and>
   req_headers (nth_request (scripted []) ''/auth/profile'' demo_options demo_state 0)
     ''Content-Type'' = Some ''application/json'' \<and>
   req_headers (nth_request (scripted []) ''/organization/tests/global'' demo_text_options
                  demo_state 0) ''Content-Type'' = Some ''text/csv'' \<and>
   req_headers (nth_request (scripted []) ''/organization/tests/global'' demo_object_options
                  demo_state 0) ''Content-Type'' = Some ''application/json''"
  using C8_content_type_header
          [of "scripted []" "''/branch-templates/upload/7''" demo_upload 0 json_type demo_state]
        C8_content_type_header
          [of "scripted []" "''/auth/profile''" demo_options 0 json_type demo_state]
        C8_content_type_header
          [of "scripted []" "''/organization/tests/global''" demo_text_options 0 json_type
              demo_state]
        C8_content_type_header
          [of "scripted []" "''/organization/tests/global''" demo_object_options 0 json_type
              demo_state]
  by (simp add: demo_isFormData demo_supplied demo_object_headers supplied_Headers)

theorem C7_witness:
  "req_headers (nth_request (scripted []) ''/branch-templates/upload/7'' demo_upload
                  demo_state 0) ''Authorization'' = Some ''Bearer old'' \<and>
   req_headers (nth_request (scripted []) ''/auth/profile'' demo_options demo_state 0)
     ''Authorization'' = Some ''Bearer old'' \<and>
   req_headers (nth_request (scripted []) ''/auth/profile'' demo_options logged_out 0)
     ''Authorization'' = None \<and>
   req_headers (nth_request (scripted []) ''/organization/tests/global'' demo_object_options
                  logged_out 0) ''Authorization'' = None"
  using C7_authorization_header
          [of "scripted []" "''/branch-templates/upload/7''" demo_upload 0 json_type demo_state]
        C7_authorization_header
          [of "scripted []" "''/auth/profile''" demo_options 0 json_type demo_state]
        C7_authorization_header
          [of "scripted []" "''/auth/profile''" demo_options 0 json_type logged_out]
        C7_authorization_header
          [of "scripted []" "''/organization/tests/global''" demo_object_options 0 json_type
              logged_out]
  by (simp add: demo_isFormData demo_supplied demo_tokens demo_object_headers supplied_Headers)

section \<open>Properties of concurrent refreshes\<close>

lemma refreshToken_start_cases:
  "refreshToken_start e s =
     (case refreshInProgress s of
        Some p \<Rightarrow> (Joined p, s)
      | None \<Rightarrow>
          (case truthy (cookies s ''refreshToken'') of
             None \<Rightarrow>
               (Thrown (Error ''No refresh token found''),
                s\<lparr>cookies := (cookies s)(''accessToken'' := None, ''userData'' := None)\<rparr>)
           | Some t \<Rightarrow>
               (Issued (promises s) (refresh_request e t (controllers s))
                  \<lparr>cid = controllers s, deadline = now s + REQUEST_TIMEOUT\<rparr> (Some (calls s)),
                s\<lparr>controllers := Suc (controllers s),
                  trace := trace s @ [Fetch (refresh_request e t (controllers s))],
                  calls := Suc (calls s),
                  refreshInProgress := Some (promises s),
                  promises := Suc (promises s)\<rparr>)))"
  by (simp add: refreshToken_start_def createAbortController_def fetch_send_def Cookies_remove_def
                REQUEST_TIMEOUT_def Let_def split: option.splits)

lemma refreshToken_resume_keeps:
  "promises (snd (refreshToken_resume out s)) = promises s"
  "calls (snd (refreshToken_resume out s)) = calls s"
  "trace (snd (refreshToken_resume out s)) = trace s"
  "refreshInProgress (snd (refreshToken_resume out s)) = None"
  by (simp_all add: refreshToken_resume_def refresh_try_def refresh_catch_def clear_session_def
                    Cookies_remove_def Cookies_set_def Let_def
               split: sum.splits option.splits prod.splits)

lemma single_flight_init: "single_flight (st (init_system s)) (init_system s)"
  by (simp add: single_flight_def init_system_def)

lemma single_flightD:
  assumes "single_flight s0 y"
  shows "inflight y = (case refreshInProgress (st y) of None \<Rightarrow> [] | Some p \<Rightarrow> [p])"
    and "\<And>p. p \<in> set (inflight y) \<Longrightarrow> promises s0 \<le> p \<and> p < promises (st y)"
    and "\<And>c p. (c, p) \<in> set (awaiting y) \<Longrightarrow> p \<in> set (inflight y)"
    and "\<And>c p r. (c, Some p, r) \<in> set (observed y) \<Longrightarrow>
           promises s0 \<le> p \<and> p < promises (st y)"
    and "\<And>c p r. (c, Some p, r) \<in> set (observed y) \<Longrightarrow> p \<notin> set (inflight y)"
    and "\<And>c c' p r r'. (c, Some p, r) \<in> set (observed y) \<Longrightarrow>
           (c', Some p, r') \<in> set (observed y) \<Longrightarrow> r = r'"
    and "promises s0 \<le> promises (st y)" and "calls s0 \<le> calls (st y)"
    and "map fst (requests y) = [promises s0 ..< promises (st y)]"
    and "map snd (requests y) = map Some [calls s0 ..< calls (st y)]"
  using assms unfolding single_flight_def by blast+

lemma single_flightI:
  assumes "inflight y = (case refreshInProgress (st y) of None \<Rightarrow> [] | Some p \<Rightarrow> [p])"
    and "\<And>p. p \<in> set (inflight y) \<Longrightarrow> promises s0 \<le> p \<and> p < promises (st y)"
    and "\<And>c p. (c, p) \<in> set (awaiting y) \<Longrightarrow> p \<in> set (inflight y)"
    and "\<And>c p r. (c, Some p, r) \<in> set (observed y) \<Longrightarrow>
           promises s0 \<le> p \<and> p < promises (st y)"
    and "\<And>c p r. (c, Some p, r) \<in> set (observed y) \<Longrightarrow> p \<notin> set (inflight y)"
    and "\<And>c c' p r r'. (c, Some p, r) \<in> set (observed y) \<Longrightarrow>
           (c', Some p, r') \<in> set (observed y) \<Longrightarrow> r = r'"
    and "promises s0 \<le> promises (st y)" and "calls s0 \<le> calls (st y)"
    and "map fst (requests y) = [promises s0 ..< promises (st y)]"
    and "map snd (requests y) = map Some [calls s0 ..< calls (st y)]"
  shows "single_flight s0 y"
  using assms unfolding single_flight_def by blast

lemma single_flight_invoke:
  assumes inv: "single_flight s0 y"
  shows "single_flight s0 (invoke e caller y)"
proof (cases "refreshInProgress (st y)")
  case (Some p)
  have y': "invoke e caller y = y\<lparr>awaiting := awaiting y @ [(caller, p)]\<rparr>"
    using Some by (simp add: invoke_def refreshToken_start_cases)
  have fl: "inflight y = [p]"
    using single_flightD(1)[OF inv] Some by simp
  show ?thesis
    unfolding y'
  proof (rule single_flightI)
    fix c q assume "(c, q) \<in> set (awaiting (y\<lparr>awaiting := awaiting y @ [(caller, p)]\<rparr>))"
    then show "q \<in> set (inflight (y\<lparr>awaiting := awaiting y @ [(caller, p)]\<rparr>))"
      using single_flightD(3)[OF inv] fl by auto
  qed (use single_flightD[OF inv] in simp_all)
next
  case None
  have fl: "inflight y = []"
    using single_flightD(1)[OF inv] None by simp
  have aw: "awaiting y = []"
    using single_flightD(3)[OF inv] fl by (cases "awaiting y") auto
  show ?thesis
  proof (cases "truthy (cookies (st y) ''refreshToken'')")
    case n: None
    define s1 where
      "s1 = (st y)\<lparr>cookies := (cookies (st y))(''accessToken'' := None, ''userData'' := None)\<rparr>"
    have y': "invoke e caller y
        = y\<lparr>st := s1,
             observed := observed y @ [(caller, None, Inl (Error ''No refresh token found''))]\<rparr>"
      using None n by (simp add: invoke_def refreshToken_start_cases s1_def)
    have s1: "refreshInProgress s1 = None" "promises s1 = promises (st y)"
        "calls s1 = calls (st y)"
      by (simp_all add: s1_def None)
    show ?thesis
      unfolding y'
    proof (rule single_flightI)
      fix c c' q r r'
      assume "(c, Some q, r) \<in> set (observed (y\<lparr>st := s1,
             observed := observed y @ [(caller, None, Inl (Error ''No refresh token found''))]\<rparr>))"
        and "(c', Some q, r') \<in> set (observed (y\<lparr>st := s1,
             observed := observed y @ [(caller, None, Inl (Error ''No refresh token found''))]\<rparr>))"
      then show "r = r'"
        using single_flightD(6)[OF inv] by auto
    qed (use single_flightD[OF inv] fl s1 None in auto)
  next
    case (Some t)
    define s1 where
      "s1 = (st y)\<lparr>controllers := Suc (controllers (st y)),
                  trace := trace (st y) @ [Fetch (refresh_request e t (controllers (st y)))],
                  calls := Suc (calls (st y)),
                  refreshInProgress := Some (promises (st y)),
                  promises := Suc (promises (st y))\<rparr>"
    have y': "invoke e caller y
        = y\<lparr>st := s1, inflight := inflight y @ [promises (st y)],
             awaiting := awaiting y @ [(caller, promises (st y))],
             requests := requests y @ [(promises (st y), Some (calls (st y)))]\<rparr>"
      using None Some by (simp add: invoke_def refreshToken_start_cases s1_def)
    have s1: "refreshInProgress s1 = Some (promises (st y))"
        "promises s1 = Suc (promises (st y))" "calls s1 = Suc (calls (st y))"
      by (simp_all add: s1_def)
    show ?thesis
      unfolding y'
    proof (rule single_flightI)
      fix c c' q r r'
      assume "(c, Some q, r) \<in> set (observed (y\<lparr>st := s1, inflight := inflight y @ [promises (st y)],
             awaiting := awaiting y @ [(caller, promises (st y))],
             requests := requests y @ [(promises (st y), Some (calls (st y)))]\<rparr>))"
        and "(c', Some q, r') \<in> set (observed (y\<lparr>st := s1, inflight := inflight y @ [promises (st y)],
             awaiting := awaiting y @ [(caller, promises (st y))],
             requests := requests y @ [(promises (st y), Some (calls (st y)))]\<rparr>))"
      then show "r = r'"
        using single_flightD(6)[OF inv] by auto
    next
      fix c q r
      assume "(c, Some q, r) \<in> set (observed (y\<lparr>st := s1, inflight := inflight y @ [promises (st y)],
             awaiting := awaiting y @ [(caller, promises (st y))],
             requests := requests y @ [(promises (st y), Some (calls (st y)))]\<rparr>))"
      then have "promises s0 \<le> q \<and> q < promises (st y)"
        using single_flightD(4)[OF inv] by auto
      then show "promises s0 \<le> q \<and>
             q < promises (st (y\<lparr>st := s1, inflight := inflight y @ [promises (st y)],
             awaiting := awaiting y @ [(caller, promises (st y))],
             requests := requests y @ [(promises (st y), Some (calls (st y)))]\<rparr>))"
         and "q \<notin> set (inflight (y\<lparr>st := s1, inflight := inflight y @ [promises (st y)],
             awaiting := awaiting y @ [(caller, promises (st y))],
             requests := requests y @ [(promises (st y), Some (calls (st y)))]\<rparr>))"
        using fl s1 by auto
    qed (use single_flightD[OF inv] fl aw s1 None in auto)
  qed
qed

lemma single_flight_settle:
  assumes inv: "single_flight s0 y"
  shows "single_flight s0 (settle p out y)"
proof (cases "p \<in> set (inflight y)")
  case False
  then show ?thesis using assms by (simp add: settle_def)
next
  case True
  obtain r s1 where res: "refreshToken_resume out (st y) = (r, s1)"
    by force
  have k: "promises s1 = promises (st y)" "calls s1 = calls (st y)"
      "refreshInProgress s1 = None"
    using refreshToken_resume_keeps[of out "st y"] by (simp_all add: res)
  have fl: "inflight y = [p]"
    using True single_flightD(1)[OF inv] by (auto split: option.splits)
  define y' where
    "y' = y\<lparr>st := s1, inflight := [],
             observed := observed y @
               map (\<lambda>(caller, q). (caller, Some q, r))
                 (filter (\<lambda>(caller, q). q = p) (awaiting y)),
             awaiting := filter (\<lambda>(caller, q). q \<noteq> p) (awaiting y)\<rparr>"
  have eq: "settle p out y = y'"
    using True fl by (simp add: settle_def res y'_def)
  have obs: "(c, Some q, x) \<in> set (observed y') \<longleftrightarrow>
               (c, Some q, x) \<in> set (observed y) \<or> ((c, q) \<in> set (awaiting y) \<and> q = p \<and> x = r)"
    for c q x
    by (auto simp: y'_def)
  show ?thesis
    unfolding eq
  proof (rule single_flightI)
    fix c c' q x x'
    assume "(c, Some q, x) \<in> set (observed y')" and "(c', Some q, x') \<in> set (observed y')"
    then show "x = x'"
      unfolding obs using single_flightD(5,6)[OF inv] fl by auto
  next
    fix c q x
    assume "(c, Some q, x) \<in> set (observed y')"
    then show "promises s0 \<le> q \<and> q < promises (st y')" and "q \<notin> set (inflight y')"
      unfolding obs using single_flightD(2,4)[OF inv] fl k by (auto simp: y'_def)
  next
    fix c q
    assume "(c, q) \<in> set (awaiting y')"
    then show "q \<in> set (inflight y')"
      using single_flightD(3)[OF inv] fl by (auto simp: y'_def)
  qed (use single_flightD[OF inv] k in \<open>auto simp: y'_def\<close>)
qed

lemma single_flight_step: "single_flight s0 y \<Longrightarrow> single_flight s0 (step e a y)"
  by (cases a) (simp_all add: single_flight_invoke single_flight_settle)

lemma single_flight_run: "single_flight s0 y \<Longrightarrow> single_flight s0 (run e acts y)"
  unfolding run_def by (induction acts arbitrary: y) (simp_all add: single_flight_step)


lemma init_system_simps:
  "promises (st (init_system s)) = promises s" "calls (st (init_system s)) = calls s"
  "refreshInProgress (st (init_system s)) = None" "cookies (st (init_system s)) = cookies s"
  "inflight (init_system s) = []" "awaiting (init_system s) = []"
  "observed (init_system s) = []" "requests (init_system s) = []"
  by (simp_all add: init_system_def)

lemma single_flight_reachable: "single_flight s (run e acts (init_system s))"
proof -
  have "single_flight (st (init_system s)) (run e acts (init_system s))"
    by (intro single_flight_run single_flight_init)
  then show ?thesis
    unfolding single_flight_def init_system_simps(1,2) .
qed

lemma invoke_while_pending:
  assumes "refreshInProgress (st y) = Some p"
  shows "invoke e caller y = y\<lparr>awaiting := awaiting y @ [(caller, p)]\<rparr>"
  using assms by (simp add: invoke_def refreshToken_start_cases)

lemma settle_pending:
  assumes "inflight y = [p]"
  shows "settle p out y
     = y\<lparr>st := snd (refreshToken_resume out (st y)), inflight := [],
          observed := observed y @
            map (\<lambda>(caller, q). (caller, Some q, fst (refreshToken_resume out (st y))))
              (filter (\<lambda>(caller, q). q = p) (awaiting y)),
          awaiting := filter (\<lambda>(caller, q). q \<noteq> p) (awaiting y)\<rparr>"
  using assms by (simp add: settle_def split: prod.splits)

text \<open>
  Claim C1. Take any interleaving of callers of \<open>refreshToken\<close> (a caller of
  \<open>fetchWithAuth\<close> that got a \<open>401\<close> is one of them) and of settlements, from a state
  with no refresh pending. In the state reached: at most one refresh request is in
  flight, and one is in flight exactly when \<open>refreshInProgress\<close> is set. A caller that
  arrives while a refresh is pending changes nothing in the client state (so it sends
  nothing) and awaits the pending promise. When the pending request settles, every
  caller awaiting it is handed the one outcome computed from that settlement, and the
  marker is cleared. Outcomes handed out for the same promise are equal. The promises
  created and the network calls made correspond one to one, and every caller's promise
  is among them.
\<close>

theorem C1_single_flight_refresh:
  "let y = run e acts (init_system s)
   in length (inflight y) \<le> 1 \<and>
      (refreshInProgress (st y) = None \<longleftrightarrow> inflight y = []) \<and>
      (\<forall>p caller. refreshInProgress (st y) = Some p \<longrightarrow>
         inflight y = [p] \<and>
         inflight (step e (Invoke caller) y) = [p] \<and>
         awaiting (step e (Invoke caller) y) = awaiting y @ [(caller, p)] \<and>
         requests (step e (Invoke caller) y) = requests y \<and>
         st (step e (Invoke caller) y) = st y) \<and>
      (\<forall>p out. p \<in> set (inflight y) \<longrightarrow>
         (\<forall>c q. (c, q) \<in> set (awaiting y) \<longrightarrow>
            q = p \<and>
            (c, Some p, fst (refreshToken_resume out (st y)))
              \<in> set (observed (step e (Settle p out) y))) \<and>
         inflight (step e (Settle p out) y) = [] \<and>
         awaiting (step e (Settle p out) y) = [] \<and>
         refreshInProgress (st (step e (Settle p out) y)) = None \<and>
         requests (step e (Settle p out) y) = requests y \<and>
         calls (st (step e (Settle p out) y)) = calls (st y)) \<and>
      (\<forall>c c' p r r'. (c, Some p, r) \<in> set (observed y) \<and> (c', Some p, r') \<in> set (observed y)
         \<longrightarrow> r = r') \<and>
      map fst (requests y) = [promises s ..< promises (st y)] \<and>
      map snd (requests y) = map Some [calls s ..< calls (st y)] \<and>
      (\<forall>c p. (c, p) \<in> set (awaiting y) \<longrightarrow> p \<in> set (map fst (requests y))) \<and>
      (\<forall>c p r. (c, Some p, r) \<in> set (observed y) \<longrightarrow> p \<in> set (map fst (requests y)))"
proof -
  define y where "y = run e acts (init_system s)"
  have inv: "single_flight s y"
    unfolding y_def by (rule single_flight_reachable)
  note d = single_flightD[OF inv]
  have one: "length (inflight y) \<le> 1"
    using d(1) by (simp split: option.splits)
  have marker: "refreshInProgress (st y) = None \<longleftrightarrow> inflight y = []"
    using d(1) by (simp split: option.splits)
  have join: "inflight y = [p] \<and>
         inflight (step e (Invoke caller) y) = [p] \<and>
         awaiting (step e (Invoke caller) y) = awaiting y @ [(caller, p)] \<and>
         requests (step e (Invoke caller) y) = requests y \<and>
         st (step e (Invoke caller) y) = st y"
    if "refreshInProgress (st y) = Some p" for p caller
    using d(1) that by (simp add: invoke_while_pending[OF that])
  have settled: "(\<forall>c q. (c, q) \<in> set (awaiting y) \<longrightarrow>
            q = p \<and>
            (c, Some p, fst (refreshToken_resume out (st y)))
              \<in> set (observed (step e (Settle p out) y))) \<and>
         inflight (step e (Settle p out) y) = [] \<and>
         awaiting (step e (Settle p out) y) = [] \<and>
         refreshInProgress (st (step e (Settle p out) y)) = None \<and>
         requests (step e (Settle p out) y) = requests y \<and>
         calls (st (step e (Settle p out) y)) = calls (st y)"
    if "p \<in> set (inflight y)" for p out
  proof -
    have fl: "inflight y = [p]"
      using that d(1) by (auto split: option.splits)
    have aw: "q = p" if "(c, q) \<in> set (awaiting y)" for c q
      using d(3)[OF that] fl by simp
    have none: "filter (\<lambda>(caller, q). q \<noteq> p) (awaiting y) = []"
      using aw by (auto simp: filter_empty_conv)
    note sp = settle_pending[OF fl, of out]
    have ob: "(c, Some p, fst (refreshToken_resume out (st y)))
                \<in> set (observed (settle p out y))"
      if "(c, q) \<in> set (awaiting y)" for c q
    proof -
      have "(c, p) \<in> set (awaiting y)"
        using that aw by auto
      then show ?thesis
        by (force simp: sp)
    qed
    have rest: "inflight (settle p out y) = []" "awaiting (settle p out y) = []"
        "refreshInProgress (st (settle p out y)) = None"
        "requests (settle p out y) = requests y"
        "calls (st (settle p out y)) = calls (st y)"
      by (simp_all add: sp none refreshToken_resume_keeps)
    show ?thesis
      using aw ob rest by auto
  qed
  have same: "r = r'"
    if "(c, Some p, r) \<in> set (observed y) \<and> (c', Some p, r') \<in> set (observed y)"
    for c c' p r r'
    using d(6) that by blast
  have aw_req: "p \<in> set (map fst (requests y))" if "(c, p) \<in> set (awaiting y)" for c p
    using d(2)[OF d(3)[OF that]] by (simp add: d(9))
  have ob_req: "p \<in> set (map fst (requests y))" if "(c, Some p, r) \<in> set (observed y)" for c p r
    using d(4)[OF that] by (simp add: d(9))
  show ?thesis
    unfolding Let_def y_def[symmetric]
    using one marker join settled same d(9) d(10) aw_req ob_req by blast
qed


theorem C1_witness:
  "inflight (run (scripted []) [Invoke 1, Invoke 2] (init_system demo_state)) = [0] \<and>
   calls (st (step (scripted []) (Invoke 3)
                (run (scripted []) [Invoke 1, Invoke 2] (init_system demo_state)))) = 1 \<and>
   (1, Some 0, Inr ''new'')
     \<in> set (observed (step (scripted []) (Settle 0 (Inr (demo_response 200)))
                         (run (scripted []) [Invoke 1, Invoke 2] (init_system demo_state)))) \<and>
   (2, Some 0, Inr ''new'')
     \<in> set (observed (step (scripted []) (Settle 0 (Inr (demo_response 200)))
                         (run (scripted []) [Invoke 1, Invoke 2] (init_system demo_state)))) \<and>
   map snd (requests (run (scripted []) [Invoke 1, Invoke 2] (init_system demo_state)))
     = [Some 0]"
proof -
  define y where "y = run (scripted []) [Invoke 1, Invoke 2] (init_system demo_state)"
  have facts: "refreshInProgress (st y) = Some 0" "awaiting y = [(1, 0), (2, 0)]"
      "calls (st y) = 1" "promises (st y) = 1"
    by (simp_all add: y_def run_def invoke_def refreshToken_start_cases init_system_def
                      demo_state_def demo_cookies_def truthy_def)
  have res: "fst (refreshToken_resume (Inr (demo_response 200)) (st y)) = Inr ''new''"
    by (simp add: refreshToken_resume_def refresh_try_def ok_def demo_response_def
             split: prod.splits)
  note T = C1_single_flight_refresh[of "scripted []" "[Invoke 1, Invoke 2]" demo_state,
             unfolded Let_def, folded y_def]
  have a: "inflight y = [0]" "st (step (scripted []) (Invoke 3) y) = st y"
    using T facts(1) by blast+
  have "(c, Some 0, fst (refreshToken_resume (Inr (demo_response 200)) (st y)))
          \<in> set (observed (step (scripted []) (Settle 0 (Inr (demo_response 200))) y))"
    if "(c, 0) \<in> set (awaiting y)" for c
    using T a(1) that by (metis list.set_intros(1))
  then have b: "(1, Some 0, Inr ''new'')
          \<in> set (observed (step (scripted []) (Settle 0 (Inr (demo_response 200))) y))"
       "(2, Some 0, Inr ''new'')
          \<in> set (observed (step (scripted []) (Settle 0 (Inr (demo_response 200))) y))"
    by (simp_all add: facts res)
  have c: "map snd (requests y) = [Some 0]"
    using T by (simp add: facts demo_state_simps)
  show ?thesis
    unfolding y_def[symmetric] using a b c by (simp add: facts)
qed

end
